theory Spec2Isabelle
  imports Complex_Main
begin

section \<open>Numbers and rounding\<close>

text \<open>
  The program computes with Python floats. Amounts are modelled as exact rationals, so
  the theorems below are statements over exact arithmetic: the binary representation
  error of IEEE doubles, infinities and NaN are outside the model.

  Python's \<^verbatim>\<open>round(x, n)\<close> rounds the exact value of \<^verbatim>\<open>x\<close> to \<^verbatim>\<open>n\<close> decimals, a tie
  going to the even neighbour.
\<close>

definition round_half_even :: "rat \<Rightarrow> int" where
  "round_half_even y =
     (let f = \<lfloor>y\<rfloor>; d = y - of_int f
      in if d < 1 / 2 then f
         else if 1 / 2 < d then f + 1
         else if even f then f else f + 1)"

definition py_round :: "rat \<Rightarrow> nat \<Rightarrow> rat" where
  "py_round x n = of_int (round_half_even (x * 10 ^ n)) / 10 ^ n"

section \<open>Tax rate resolver (\<^verbatim>\<open>pricing_logic/vat_rules.py\<close>)\<close>

text \<open>The table \<^verbatim>\<open>self.vat_rates\<close> of \<^verbatim>\<open>VATCalculatorForQuotes.__init__\<close>.\<close>

definition vat_rates :: "(string \<times> rat) list" where
  "vat_rates =
     [(''standard'', 20 / 100),
      (''renovation'', 10 / 100),
      (''energy_efficiency'', 55 / 1000),
      (''social_housing'', 55 / 1000)]"

text \<open>
  \<^verbatim>\<open>self.vat_rates[key]\<close> for one of the three keys the simple path reads; all three are
  present in the table, so the subscript never raises.
\<close>

definition vat_rate_of :: "string \<Rightarrow> rat" where
  "vat_rate_of key = (case map_of vat_rates key of Some r \<Rightarrow> r | None \<Rightarrow> 0)"

record vat_result =
  vr_materials_cost :: rat
  vr_labor_cost :: rat
  vr_subtotal :: rat
  vr_vat_rate :: rat
  vr_vat_amount :: rat
  vr_total_including_vat :: rat
  vr_rate_description :: string
  vr_building_age_years :: int
  vr_is_energy_renovation :: bool

text \<open>\<^verbatim>\<open>VATCalculatorForQuotes.calculate_simple_renovation_vat\<close>.\<close>

definition calculate_simple_renovation_vat :: "rat \<Rightarrow> rat \<Rightarrow> int \<Rightarrow> bool \<Rightarrow> vat_result" where
  "calculate_simple_renovation_vat materials_cost labor_cost building_age_years is_energy_renovation =
     (let subtotal = materials_cost + labor_cost;
          (vat_rate, rate_description) =
            (if is_energy_renovation \<and> building_age_years \<ge> 2
             then (vat_rate_of ''energy_efficiency'', ''Energy efficiency renovation (5.5%)'')
             else if building_age_years \<ge> 2
             then (vat_rate_of ''renovation'', ''Renovation work on building >2 years (10%)'')
             else (vat_rate_of ''standard'', ''New construction rate (20%)''));
          vat_amount = subtotal * vat_rate;
          total_including_vat = subtotal + vat_amount
      in \<lparr> vr_materials_cost = materials_cost,
           vr_labor_cost = labor_cost,
           vr_subtotal = subtotal,
           vr_vat_rate = vat_rate,
           vr_vat_amount = py_round vat_amount 2,
           vr_total_including_vat = py_round total_including_vat 2,
           vr_rate_description = rate_description,
           vr_building_age_years = building_age_years,
           vr_is_energy_renovation = is_energy_renovation \<rparr>)"

section \<open>Strings\<close>

text \<open>
  Strings are byte strings. \<^verbatim>\<open>str.lower\<close> and \<^verbatim>\<open>str.title\<close> are modelled on the ASCII
  letters, which is where every key of the configuration tables lives; bytes above 127
  are left alone.
\<close>

definition is_upper_char :: "char \<Rightarrow> bool" where
  "is_upper_char c = (let n = (of_char c :: nat) in 65 \<le> n \<and> n \<le> 90)"

definition is_lower_char :: "char \<Rightarrow> bool" where
  "is_lower_char c = (let n = (of_char c :: nat) in 97 \<le> n \<and> n \<le> 122)"

definition lower_char :: "char \<Rightarrow> char" where
  "lower_char c = (if is_upper_char c then char_of ((of_char c :: nat) + 32) else c)"

definition upper_char :: "char \<Rightarrow> char" where
  "upper_char c = (if is_lower_char c then char_of ((of_char c :: nat) - 32) else c)"

definition py_lower :: "string \<Rightarrow> string" where
  "py_lower s = map lower_char s"

text \<open>
  \<^verbatim>\<open>str.title\<close>: the first letter of every run of letters in upper case, the rest of the
  run in lower case. The flag says whether the previous character was a letter.
\<close>

fun title_from :: "bool \<Rightarrow> string \<Rightarrow> string" where
  "title_from prev [] = []"
| "title_from prev (c # cs) =
     (if is_upper_char c \<or> is_lower_char c
      then (if prev then lower_char c else upper_char c) # title_from True cs
      else c # title_from False cs)"

definition py_title :: "string \<Rightarrow> string" where
  "py_title s = title_from False s"

text \<open>\<^verbatim>\<open>s.replace("_", "")\<close>.\<close>

definition remove_underscores :: "string \<Rightarrow> string" where
  "remove_underscores s = filter (\<lambda>c. c \<noteq> CHR ''_'') s"

text \<open>\<^verbatim>\<open>needle in haystack\<close> on strings.\<close>

fun starts_with :: "string \<Rightarrow> string \<Rightarrow> bool" where
  "starts_with [] ys = True"
| "starts_with (x # xs) [] = False"
| "starts_with (x # xs) (y # ys) = (x = y \<and> starts_with xs ys)"

fun str_contains :: "string \<Rightarrow> string \<Rightarrow> bool" where
  "str_contains needle [] = (needle = [])"
| "str_contains needle (c # cs) = (starts_with needle (c # cs) \<or> str_contains needle cs)"

text \<open>The unit of area, square metres: the letter m and the two UTF-8 bytes of the superscript two.\<close>

definition unit_sqm :: string where
  "unit_sqm = [CHR ''m'', CHR 0xC2, CHR 0xB2]"

section \<open>Material catalog (\<^verbatim>\<open>pricing_logic/material_db.py\<close>)\<close>

record material =
  m_name :: string
  m_category :: string
  m_unit :: string
  m_base_cost :: rat
  m_supplier_margin :: rat
  m_quality_grade :: string
  m_availability_score :: rat
  m_last_updated :: string
  m_supplier_id :: "string option"

text \<open>
  The state of a \<^verbatim>\<open>MaterialDatabase\<close>: the two dictionaries \<^verbatim>\<open>self.materials\<close> and
  \<^verbatim>\<open>self.regional_multipliers\<close>, in insertion order.
\<close>

record material_db =
  db_materials :: "(string \<times> material) list"
  db_regional_multipliers :: "(string \<times> rat) list"

text \<open>
  A catalog entry as \<^verbatim>\<open>_initialize_default_materials\<close> builds it; \<^verbatim>\<open>now\<close> is the value of
  \<^verbatim>\<open>datetime.now().isoformat()\<close>, and \<^verbatim>\<open>supplier_id\<close> keeps its default \<^verbatim>\<open>None\<close>.
\<close>

definition Material :: "string \<Rightarrow> string \<Rightarrow> string \<Rightarrow> string \<Rightarrow> rat \<Rightarrow> rat \<Rightarrow> string \<Rightarrow> rat \<Rightarrow> material" where
  "Material now name category unit base_cost supplier_margin quality_grade availability_score =
     \<lparr> m_name = name, m_category = category, m_unit = unit, m_base_cost = base_cost,
       m_supplier_margin = supplier_margin, m_quality_grade = quality_grade,
       m_availability_score = availability_score, m_last_updated = now,
       m_supplier_id = None \<rparr>"

definition default_materials :: "string \<Rightarrow> (string \<times> material) list" where
  "default_materials now =
     [(''ceramic_floor_basic'',
         Material now ''Ceramic Floor Tiles - Basic'' ''flooring'' unit_sqm 22 (15 / 100) ''basic'' (95 / 100)),
      (''ceramic_floor_standard'',
         Material now ''Ceramic Floor Tiles - Standard'' ''flooring'' unit_sqm 35 (18 / 100) ''standard'' (90 / 100)),
      (''wall_tiles_standard'',
         Material now ''Wall Tiles - Standard'' ''tiling'' unit_sqm 28 (15 / 100) ''standard'' (90 / 100)),
      (''tile_adhesive'',
         Material now ''Flexible Tile Adhesive'' ''consumables'' ''kg'' (28 / 10) (10 / 100) ''standard'' (95 / 100)),
      (''waterproof_membrane'',
         Material now ''Waterproof Membrane'' ''consumables'' unit_sqm 12 (15 / 100) ''standard'' (90 / 100)),
      (''shower_mixer_basic'',
         Material now ''Shower Mixer - Basic Chrome'' ''plumbing'' ''unit'' 85 (25 / 100) ''basic'' (95 / 100)),
      (''shower_mixer_premium'',
         Material now ''Shower Mixer - Premium Thermostatic'' ''plumbing'' ''unit'' 220 (30 / 100) ''premium'' (75 / 100)),
      (''toilet_standard'',
         Material now ''Wall-hung Toilet - Standard'' ''plumbing'' ''unit'' 280 (20 / 100) ''standard'' (85 / 100)),
      (''vanity_unit_60cm'',
         Material now ''Vanity Unit 60cm with Basin'' ''installation'' ''unit'' 320 (25 / 100) ''standard'' (80 / 100)),
      (''pipes_pvc'',
         Material now ''PVC Pipes and Fittings'' ''plumbing'' ''m'' (85 / 10) (15 / 100) ''standard'' (95 / 100)),
      (''bathroom_paint_basic'',
         Material now ''Bathroom Paint - Anti-mold Basic'' ''painting'' ''liter'' 15 (12 / 100) ''basic'' (95 / 100)),
      (''primer'',
         Material now ''Wall Primer - Bathroom'' ''painting'' ''liter'' 12 (12 / 100) ''standard'' (95 / 100)),
      (''demolition_materials'',
         Material now ''Demolition Supplies'' ''consumables'' unit_sqm 5 (10 / 100) ''basic'' (95 / 100)),
      (''electrical_supplies'',
         Material now ''Electrical Supplies - Bathroom'' ''electrical'' ''unit'' 45 (20 / 100) ''standard'' (90 / 100))]"

text \<open>\<^verbatim>\<open>_setup_regional_pricing\<close>.\<close>

definition material_regional_multipliers :: "(string \<times> rat) list" where
  "material_regional_multipliers =
     [(''paris'', 135 / 100), (''lyon'', 115 / 100), (''marseille'', 1),
      (''toulouse'', 108 / 100), (''nice'', 125 / 100), (''nantes'', 105 / 100),
      (''strasbourg'', 118 / 100), (''bordeaux'', 112 / 100), (''lille'', 110 / 100),
      (''montpellier'', 103 / 100), (''rennes'', 106 / 100), (''reims'', 102 / 100)]"

text \<open>\<^verbatim>\<open>MaterialDatabase()\<close> with no data file.\<close>

definition MaterialDatabase :: "string \<Rightarrow> material_db" where
  "MaterialDatabase now =
     \<lparr> db_materials = default_materials now,
       db_regional_multipliers = material_regional_multipliers \<rparr>"

text \<open>\<^verbatim>\<open>table.get(region.lower(), 1.0)\<close>, the lookup both regional tables are read with.\<close>

definition regional_lookup :: "(string \<times> rat) list \<Rightarrow> string \<Rightarrow> rat" where
  "regional_lookup table region =
     (case map_of table (py_lower region) of Some r \<Rightarrow> r | None \<Rightarrow> 1)"

text \<open>\<^verbatim>\<open>MaterialDatabase.get_material\<close>; \<^verbatim>\<open>None\<close> is the value of an unknown id.\<close>

definition get_material :: "material_db \<Rightarrow> string \<Rightarrow> string \<Rightarrow> material option" where
  "get_material db material_id region =
     (case map_of (db_materials db) material_id of
        None \<Rightarrow> None
      | Some base_material \<Rightarrow>
          (let regional_multiplier = regional_lookup (db_regional_multipliers db) region
           in Some \<lparr> m_name = m_name base_material,
                     m_category = m_category base_material,
                     m_unit = m_unit base_material,
                     m_base_cost = m_base_cost base_material * regional_multiplier,
                     m_supplier_margin = m_supplier_margin base_material,
                     m_quality_grade = m_quality_grade base_material,
                     m_availability_score = m_availability_score base_material,
                     m_last_updated = m_last_updated base_material,
                     m_supplier_id = m_supplier_id base_material \<rparr>))"

record cost_info =
  ci_material_id :: string
  ci_name :: string
  ci_quantity :: rat
  ci_unit :: string
  ci_unit_cost :: rat
  ci_base_cost :: rat
  ci_margin :: rat
  ci_total_cost :: rat
  ci_availability_score :: rat
  ci_quality_grade :: string

text \<open>
  \<^verbatim>\<open>MaterialDatabase.get_cost_with_margin\<close>. The dictionary with the single key
  \<^verbatim>\<open>"error"\<close> is the left summand, carrying the message.
\<close>

definition get_cost_with_margin :: "material_db \<Rightarrow> string \<Rightarrow> rat \<Rightarrow> string \<Rightarrow> string + cost_info" where
  "get_cost_with_margin db material_id quantity region =
     (case get_material db material_id region of
        None \<Rightarrow> Inl (''Material '' @ material_id @ '' not found'')
      | Some material \<Rightarrow>
          (let base_cost = m_base_cost material * quantity;
               margin_amount = base_cost * m_supplier_margin material;
               total_cost = base_cost + margin_amount
           in Inr \<lparr> ci_material_id = material_id,
                    ci_name = m_name material,
                    ci_quantity = quantity,
                    ci_unit = m_unit material,
                    ci_unit_cost = m_base_cost material,
                    ci_base_cost = py_round base_cost 2,
                    ci_margin = py_round margin_amount 2,
                    ci_total_cost = py_round total_cost 2,
                    ci_availability_score = m_availability_score material,
                    ci_quality_grade = m_quality_grade material \<rparr>))"

section \<open>Labor rate engine (\<^verbatim>\<open>pricing_logic/labor_calc.py\<close>)\<close>

datatype SkillLevel = HELPER | BASIC | SKILLED | SPECIALIST

text \<open>\<^verbatim>\<open>skill_level.value\<close>.\<close>

fun skill_value :: "SkillLevel \<Rightarrow> string" where
  "skill_value HELPER = ''helper''"
| "skill_value BASIC = ''basic''"
| "skill_value SKILLED = ''skilled''"
| "skill_value SPECIALIST = ''specialist''"

text \<open>\<^verbatim>\<open>self.base_rates\<close>: every skill level has a rate.\<close>

fun base_rates :: "SkillLevel \<Rightarrow> rat" where
  "base_rates HELPER = 22"
| "base_rates BASIC = 30"
| "base_rates SKILLED = 42"
| "base_rates SPECIALIST = 65"

definition labor_regional_multipliers :: "(string \<times> rat) list" where
  "labor_regional_multipliers =
     [(''paris'', 145 / 100), (''lyon'', 120 / 100), (''marseille'', 1),
      (''toulouse'', 112 / 100), (''nice'', 130 / 100), (''nantes'', 105 / 100),
      (''strasbourg'', 118 / 100), (''bordeaux'', 115 / 100), (''lille'', 110 / 100),
      (''montpellier'', 103 / 100), (''rennes'', 106 / 100), (''reims'', 102 / 100)]"

record labor_task_def =
  skill_level :: SkillLevel
  hours_per_sqm :: rat
  minimum_hours :: rat
  complexity_factors :: "(string \<times> rat) list"

definition labor_task_definitions :: "(string \<times> labor_task_def) list" where
  "labor_task_definitions =
     [(''demolition'',
         \<lparr> skill_level = BASIC, hours_per_sqm = 15 / 10, minimum_hours = 3,
           complexity_factors =
             [(''thick_walls'', 13 / 10), (''tight_access'', 12 / 10),
              (''electrical_obstacles'', 12 / 10)] \<rparr>),
      (''tiling'',
         \<lparr> skill_level = SKILLED, hours_per_sqm = 28 / 10, minimum_hours = 6,
           complexity_factors =
             [(''small_tiles'', 14 / 10), (''pattern_work'', 16 / 10),
              (''curved_surfaces'', 15 / 10), (''waterproofing'', 13 / 10)] \<rparr>),
      (''plumbing'',
         \<lparr> skill_level = SPECIALIST, hours_per_sqm = 25 / 10, minimum_hours = 4,
           complexity_factors =
             [(''new_connections'', 15 / 10), (''old_building'', 14 / 10),
              (''waterproofing'', 12 / 10)] \<rparr>),
      (''electrical'',
         \<lparr> skill_level = SPECIALIST, hours_per_sqm = 2, minimum_hours = 3,
           complexity_factors =
             [(''new_circuit'', 15 / 10), (''bathroom_safety'', 13 / 10),
              (''concealed_wiring'', 14 / 10)] \<rparr>),
      (''installation'',
         \<lparr> skill_level = SKILLED, hours_per_sqm = 18 / 10, minimum_hours = 2,
           complexity_factors =
             [(''heavy_items'', 13 / 10), (''custom_fitting'', 14 / 10),
              (''wall_mounting'', 11 / 10)] \<rparr>),
      (''painting'',
         \<lparr> skill_level = BASIC, hours_per_sqm = 1, minimum_hours = 4,
           complexity_factors =
             [(''multiple_coats'', 14 / 10), (''detail_work'', 13 / 10),
              (''moisture_resistant'', 11 / 10)] \<rparr>)]"

definition seasonal_multipliers :: "(nat \<times> rat) list" where
  "seasonal_multipliers =
     [(1, 95 / 100), (2, 95 / 100), (3, 1), (4, 115 / 100), (5, 125 / 100), (6, 125 / 100),
      (7, 135 / 100), (8, 135 / 100), (9, 115 / 100), (10, 115 / 100), (11, 95 / 100),
      (12, 95 / 100)]"

record labor_result =
  lr_task_type :: string
  lr_skill_required :: string
  lr_base_hours :: rat
  lr_billable_hours :: rat
  lr_final_hours :: rat
  lr_base_hourly_rate :: rat
  lr_regional_multiplier :: rat
  lr_complexity_multiplier :: rat
  lr_seasonal_multiplier :: rat
  lr_rush_multiplier :: rat
  lr_final_hourly_rate :: rat
  lr_base_labor_cost :: rat
  lr_applied_complexity_factors :: "(string \<times> rat) list"
  lr_area_or_units :: rat

text \<open>
  Lines 144 to 147 of \<^verbatim>\<open>calculate_task_labor\<close>: the base hours and the minimum applied
  to them. This is the value of the local variable \<^verbatim>\<open>billable_hours\<close>, before the result
  dictionary rounds it.
\<close>

definition billable_hours_of :: "labor_task_def \<Rightarrow> rat \<Rightarrow> rat" where
  "billable_hours_of task_def area_or_units =
     (let base_hours = area_or_units * hours_per_sqm task_def
      in max base_hours (minimum_hours task_def))"

text \<open>
  The loop over the complexity factors, lines 150 to 161: the running multiplier and the
  list of applied factors. A factor the task's table does not hold is passed over.
\<close>

fun apply_factors :: "(string \<times> rat) list \<Rightarrow> string list \<Rightarrow> rat \<Rightarrow> (string \<times> rat) list \<Rightarrow> rat \<times> (string \<times> rat) list" where
  "apply_factors table [] complexity_multiplier applied_factors =
     (complexity_multiplier, applied_factors)"
| "apply_factors table (factor # rest) complexity_multiplier applied_factors =
     (case map_of table factor of
        Some factor_multiplier \<Rightarrow>
          apply_factors table rest (complexity_multiplier * factor_multiplier)
            (applied_factors @ [(factor, factor_multiplier)])
      | None \<Rightarrow> apply_factors table rest complexity_multiplier applied_factors)"

text \<open>
  \<^verbatim>\<open>LaborCalculator.calculate_task_labor\<close> on arguments of the annotated types: the
  complexity factors are a list of strings (\<^verbatim>\<open>None\<close> and the empty list behave alike),
  the target date is given by its month. The dictionary with the single key \<^verbatim>\<open>"error"\<close>
  is the left summand.
\<close>

definition calculate_task_labor :: "string \<Rightarrow> rat \<Rightarrow> string \<Rightarrow> string list \<Rightarrow> nat option \<Rightarrow> bool \<Rightarrow> string + labor_result" where
  "calculate_task_labor task_type area_or_units region factors target_month rush_job =
     (case map_of labor_task_definitions task_type of
        None \<Rightarrow> Inl (''Unknown task type: '' @ task_type)
      | Some task_def \<Rightarrow>
          (let base_hours = area_or_units * hours_per_sqm task_def;
               billable_hours = billable_hours_of task_def area_or_units;
               (complexity_multiplier, applied_factors) =
                  apply_factors (complexity_factors task_def) factors 1 [];
               final_hours = billable_hours * complexity_multiplier;
               base_hourly_rate = base_rates (skill_level task_def);
               regional_multiplier = regional_lookup labor_regional_multipliers region;
               regional_rate = base_hourly_rate * regional_multiplier;
               seasonal_multiplier =
                 (case target_month of
                    None \<Rightarrow> 1
                  | Some month \<Rightarrow>
                      (case map_of seasonal_multipliers month of Some r \<Rightarrow> r | None \<Rightarrow> 1));
               rush_multiplier = (if rush_job then 18 / 10 else 1);
               final_hourly_rate = regional_rate * seasonal_multiplier * rush_multiplier;
               base_labor_cost = final_hours * final_hourly_rate
           in Inr \<lparr> lr_task_type = task_type,
                    lr_skill_required = skill_value (skill_level task_def),
                    lr_base_hours = py_round base_hours 1,
                    lr_billable_hours = py_round billable_hours 1,
                    lr_final_hours = py_round final_hours 1,
                    lr_base_hourly_rate = base_hourly_rate,
                    lr_regional_multiplier = regional_multiplier,
                    lr_complexity_multiplier = py_round complexity_multiplier 2,
                    lr_seasonal_multiplier = py_round seasonal_multiplier 2,
                    lr_rush_multiplier = rush_multiplier,
                    lr_final_hourly_rate = py_round final_hourly_rate 2,
                    lr_base_labor_cost = py_round base_labor_cost 2,
                    lr_applied_complexity_factors = applied_factors,
                    lr_area_or_units = area_or_units \<rparr>))"

section \<open>Values of the parsed work order\<close>

text \<open>
  The transcript parser hands over whatever \<^verbatim>\<open>json.loads\<close> made of the language model's
  answer, so the orchestrator works on untyped values. \<^verbatim>\<open>json.loads\<close> reads a number
  without fraction or exponent as a Python integer (\<open>JInt\<close>, of any size) and every other
  number as a float (\<open>JNum\<close>, an exact rational, see above); a dictionary is its list of
  items.
\<close>

datatype json =
    JNull
  | JBool bool
  | JInt int
  | JNum rat
  | JStr string
  | JArr "json list"
  | JObj "(string \<times> json) list"

text \<open>
  The exceptions of the model: those the orchestrator's own code raises (on a value of
  the wrong type, on an integer too large for a float, on a text the standard output
  cannot encode), and whatever the parser raises, named by a text of its own.
\<close>

datatype py_exn =
    TypeError
  | AttributeError
  | OverflowError
  | UnicodeEncodeError
  | ParserFailure string

text \<open>\<^verbatim>\<open>d.get(key, default)\<close> on a dictionary.\<close>

definition dict_get :: "(string \<times> json) list \<Rightarrow> string \<Rightarrow> json \<Rightarrow> json" where
  "dict_get d key dflt = (case map_of d key of Some v \<Rightarrow> v | None \<Rightarrow> dflt)"

text \<open>\<^verbatim>\<open>x.get(key, default)\<close> on any value: only a dictionary has the method.\<close>

fun py_get :: "json \<Rightarrow> string \<Rightarrow> json \<Rightarrow> py_exn + json" where
  "py_get (JObj d) key dflt = Inr (dict_get d key dflt)"
| "py_get _ key dflt = Inl AttributeError"

text \<open>The truth value of a value, as \<^verbatim>\<open>if x:\<close> takes it.\<close>

fun truthy :: "json \<Rightarrow> bool" where
  "truthy JNull = False"
| "truthy (JBool b) = b"
| "truthy (JInt i) = (i \<noteq> 0)"
| "truthy (JNum r) = (r \<noteq> 0)"
| "truthy (JStr s) = (s \<noteq> [])"
| "truthy (JArr xs) = (xs \<noteq> [])"
| "truthy (JObj d) = (d \<noteq> [])"

text \<open>
  \<^verbatim>\<open>for x in v\<close>: a list gives its elements, a string its characters, a dictionary its
  keys; nothing else can be iterated.
\<close>

fun py_iter :: "json \<Rightarrow> py_exn + json list" where
  "py_iter (JArr xs) = Inr xs"
| "py_iter (JStr s) = Inr (map (\<lambda>c. JStr [c]) s)"
| "py_iter (JObj d) = Inr (map (\<lambda>kv. JStr (fst kv)) d)"
| "py_iter _ = Inl TypeError"

text \<open>
  The conversion of a Python integer to a float, which \<^verbatim>\<open>i * f\<close> performs on \<^verbatim>\<open>i\<close>: it
  rounds to 53 bits, and raises when the result would reach \<open>2 ^ 1024\<close>. The largest
  float is \<open>2 ^ 1024 - 2 ^ 971\<close>, and from half-way to \<open>2 ^ 1024\<close> on the integer rounds
  up.
\<close>

definition int_fits_float :: "int \<Rightarrow> bool" where
  "int_fits_float i = (\<bar>i\<bar> < 2 ^ 1024 - 2 ^ 970)"

text \<open>
  \<^verbatim>\<open>x * f\<close> for a float \<^verbatim>\<open>f\<close>: a float is taken as it is, an integer is converted, a
  Boolean counts as 0 or 1, anything else raises.
\<close>

fun float_operand :: "json \<Rightarrow> py_exn + rat" where
  "float_operand (JNum r) = Inr r"
| "float_operand (JInt i) = (if int_fits_float i then Inr (of_int i) else Inl OverflowError)"
| "float_operand (JBool b) = Inr (if b then 1 else 0)"
| "float_operand _ = Inl TypeError"

text \<open>
  \<^verbatim>\<open>x in d\<close> for a dictionary \<^verbatim>\<open>d\<close> with string keys: a list or a dictionary cannot be
  hashed; a string is looked up; any other value is no key.
\<close>

fun hashable :: "json \<Rightarrow> bool" where
  "hashable (JArr xs) = False"
| "hashable (JObj d) = False"
| "hashable _ = True"

fun key_string :: "json \<Rightarrow> py_exn + string option" where
  "key_string (JStr s) = Inr (Some s)"
| "key_string (JArr xs) = Inl TypeError"
| "key_string (JObj d) = Inl TypeError"
| "key_string _ = Inr None"

section \<open>Quote assembler (\<^verbatim>\<open>pricing_engine.py\<close>)\<close>

record engine_task_def =
  e_skill_level :: SkillLevel
  e_hours_per_sqm :: rat
  e_materials :: "(string \<times> rat) list"

text \<open>\<^verbatim>\<open>PricingEngine.task_definitions\<close>.\<close>

definition task_definitions :: "(string \<times> engine_task_def) list" where
  "task_definitions =
     [(''demolition'',
         \<lparr> e_skill_level = BASIC, e_hours_per_sqm = 15 / 10,
           e_materials = [(''demolition_materials'', 1)] \<rparr>),
      (''tiling'',
         \<lparr> e_skill_level = SKILLED, e_hours_per_sqm = 28 / 10,
           e_materials =
             [(''ceramic_floor_basic'', 11 / 10), (''tile_adhesive'', 15 / 10),
              (''waterproof_membrane'', 1)] \<rparr>),
      (''plumbing'',
         \<lparr> e_skill_level = SPECIALIST, e_hours_per_sqm = 25 / 10,
           e_materials =
             [(''shower_mixer_basic'', 25 / 100), (''toilet_standard'', 25 / 100),
              (''pipes_pvc'', 3)] \<rparr>),
      (''installation'',
         \<lparr> e_skill_level = SKILLED, e_hours_per_sqm = 18 / 10,
           e_materials = [(''vanity_unit_60cm'', 25 / 100)] \<rparr>),
      (''painting'',
         \<lparr> e_skill_level = BASIC, e_hours_per_sqm = 1,
           e_materials = [(''bathroom_paint_basic'', 2 / 10), (''primer'', 15 / 100)] \<rparr>),
      (''electrical'',
         \<lparr> e_skill_level = SPECIALIST, e_hours_per_sqm = 2,
           e_materials = [(''electrical_supplies'', 5 / 10)] \<rparr>)]"

record material_line =
  ml_name :: string
  ml_quantity :: rat
  ml_unit :: string
  ml_unit_cost :: rat
  ml_total_cost :: rat

text \<open>
  A dictionary of \<^verbatim>\<open>detailed_tasks\<close>. The description, the area and the complexity
  factors are copied from the work order as they came.
\<close>

record detailed_task =
  dt_task_type :: string
  dt_description :: json
  dt_area_sqm :: json
  dt_labor_hours :: rat
  dt_labor_cost :: rat
  dt_materials :: "material_line list"
  dt_materials_cost :: rat
  dt_skill_required :: string
  dt_complexity_factors :: json

text \<open>The single dictionary in the task list of the fallback quote.\<close>

record fallback_task =
  ft_task_type :: string
  ft_description :: string
  ft_area_sqm :: rat
  ft_labor_hours :: rat
  ft_labor_cost :: rat
  ft_materials :: "(string \<times> rat) list"
  ft_materials_cost :: rat
  ft_skill_required :: string
  ft_error :: string

datatype quote_task = Detailed detailed_task | Placeholder fallback_task

text \<open>
  The dataclass \<^verbatim>\<open>Quote\<close>. Python does not check the annotations: city, area, confidence
  and parsing method hold what the work order held.
\<close>

record Quote =
  q_project_id :: string
  q_zone :: string
  q_city :: json
  q_total_area_sqm :: json
  q_tasks :: "quote_task list"
  q_subtotal_materials :: rat
  q_subtotal_labor :: rat
  q_vat_amount :: rat
  q_total_price :: rat
  q_margin_percentage :: rat
  q_confidence_score :: json
  q_parsing_method :: json
  q_created_at :: string

text \<open>
  What the engine takes from outside the repository's arithmetic: the transcript parser
  (a call to an external service, which returns a dictionary or raises), Python's
  \<^verbatim>\<open>str\<close> on an exception and on a task dictionary, the texts the encoding of the
  standard output can encode, and the clock, read once for the project identifier (as
  \<^verbatim>\<open>strftime('%Y%m%d_%H%M%S')\<close>) and once for the creation time (as \<^verbatim>\<open>isoformat()\<close>).
\<close>

record runtime =
  rt_parse_transcript :: "string \<Rightarrow> py_exn + (string \<times> json) list"
  rt_exn_str :: "py_exn \<Rightarrow> string"
  rt_task_str :: "detailed_task \<Rightarrow> string"
  rt_stdout_can_encode :: "string \<Rightarrow> bool"
  rt_now_stamp :: string
  rt_now_iso :: string

text \<open>
  The call \<^verbatim>\<open>self.material_db.get_cost_with_margin(material_id, quantity, city)\<close> with
  the city as the work order gave it: \<^verbatim>\<open>get_material\<close> returns \<^verbatim>\<open>None\<close> for an unknown
  id before it touches the region, and calls \<^verbatim>\<open>region.lower()\<close> otherwise, a method only
  a string has.
\<close>

definition call_get_cost_with_margin :: "material_db \<Rightarrow> string \<Rightarrow> rat \<Rightarrow> json \<Rightarrow> py_exn + (string + cost_info)" where
  "call_get_cost_with_margin db material_id quantity city =
     (case city of
        JStr region \<Rightarrow> Inr (get_cost_with_margin db material_id quantity region)
      | _ \<Rightarrow>
          (case map_of (db_materials db) material_id of
             None \<Rightarrow> Inr (Inl (''Material '' @ material_id @ '' not found''))
           | Some base_material \<Rightarrow> Inl AttributeError))"

text \<open>
  The complexity factors as \<^verbatim>\<open>calculate_task_labor\<close> reads them: nothing when the value
  is false; otherwise its elements, each tested with \<^verbatim>\<open>factor in table\<close>, where only a
  string can be a key of the table.
\<close>

definition factor_strings :: "json \<Rightarrow> py_exn + string list" where
  "factor_strings factors =
     (if \<not> truthy factors then Inr []
      else (case py_iter factors of
              Inl e \<Rightarrow> Inl e
            | Inr items \<Rightarrow>
                if list_all hashable items
                then Inr (concat (map (\<lambda>x. case x of JStr s \<Rightarrow> [s] | _ \<Rightarrow> []) items))
                else Inl TypeError))"

text \<open>
  The call \<^verbatim>\<open>self.labor_calc.calculate_task_labor(task_type, area, city, factors)\<close> with
  untyped area, city and factors, raising where the body would, in its order: the
  unknown task type returns first, then the area is multiplied, the factors are read,
  and the region is put in lower case.
\<close>

definition call_calculate_task_labor :: "string \<Rightarrow> json \<Rightarrow> json \<Rightarrow> json \<Rightarrow> py_exn + (string + labor_result)" where
  "call_calculate_task_labor task_type area city factors =
     (case map_of labor_task_definitions task_type of
        None \<Rightarrow> Inr (Inl (''Unknown task type: '' @ task_type))
      | Some task_def \<Rightarrow>
          (case float_operand area of
             Inl e \<Rightarrow> Inl e
           | Inr area_or_units \<Rightarrow>
               (case factor_strings factors of
                  Inl e \<Rightarrow> Inl e
                | Inr fs \<Rightarrow>
                    (case city of
                       JStr region \<Rightarrow>
                         Inr (calculate_task_labor task_type area_or_units region fs None False)
                     | _ \<Rightarrow> Inl AttributeError))))"

text \<open>
  The inner loop of \<^verbatim>\<open>_generate_detailed_tasks\<close> over the materials of a task, with the
  list and the running total it builds.
\<close>

fun materials_loop :: "material_db \<Rightarrow> json \<Rightarrow> json \<Rightarrow> (string \<times> rat) list \<Rightarrow> material_line list \<Rightarrow> rat \<Rightarrow> py_exn + (material_line list \<times> rat)" where
  "materials_loop db area city [] materials total_materials_cost =
     Inr (materials, total_materials_cost)"
| "materials_loop db area city ((material_id, qty_per_sqm) # rest) materials total_materials_cost =
     (case float_operand area of
        Inl e \<Rightarrow> Inl e
      | Inr a \<Rightarrow>
          (let quantity = a * qty_per_sqm
           in case call_get_cost_with_margin db material_id quantity city of
                Inl e \<Rightarrow> Inl e
              | Inr (Inl err) \<Rightarrow> materials_loop db area city rest materials total_materials_cost
              | Inr (Inr cost_info) \<Rightarrow>
                  materials_loop db area city rest
                    (materials @
                      [\<lparr> ml_name = ci_name cost_info,
                         ml_quantity = ci_quantity cost_info,
                         ml_unit = ci_unit cost_info,
                         ml_unit_cost = ci_unit_cost cost_info,
                         ml_total_cost = ci_total_cost cost_info \<rparr>])
                    (total_materials_cost + ci_total_cost cost_info)))"

text \<open>
  The body of the outer loop for a task dictionary \<^verbatim>\<open>task\<close> whose type is a key of
  \<^verbatim>\<open>task_definitions\<close>: the detailed task to append, or nothing when the labor
  calculator reports an error.
\<close>

definition expand_task :: "material_db \<Rightarrow> json \<Rightarrow> json \<Rightarrow> (string \<times> json) list \<Rightarrow> string \<Rightarrow> engine_task_def \<Rightarrow> py_exn + detailed_task option" where
  "expand_task db area city task task_type task_def =
     (case materials_loop db area city (e_materials task_def) [] 0 of
        Inl e \<Rightarrow> Inl e
      | Inr (materials, total_materials_cost) \<Rightarrow>
          (case call_calculate_task_labor (remove_underscores task_type) area city
                  (dict_get task ''complexity_factors'' (JArr [])) of
             Inl e \<Rightarrow> Inl e
           | Inr (Inl err) \<Rightarrow> Inr None
           | Inr (Inr labor_result) \<Rightarrow>
               Inr (Some
                 \<lparr> dt_task_type = task_type,
                   dt_description =
                     dict_get task ''description'' (JStr (py_title task_type @ '' work'')),
                   dt_area_sqm = area,
                   dt_labor_hours = lr_billable_hours labor_result,
                   dt_labor_cost = lr_base_labor_cost labor_result,
                   dt_materials = materials,
                   dt_materials_cost = py_round total_materials_cost 2,
                   dt_skill_required = lr_skill_required labor_result,
                   dt_complexity_factors =
                     dict_get task ''complexity_factors'' (JArr []) \<rparr>)))"

text \<open>
  The outer loop over the requested tasks, with the list it builds. \<^verbatim>\<open>task.get\<close> needs a
  dictionary; a type that is no key of \<^verbatim>\<open>task_definitions\<close> is passed over, and a type
  that cannot be hashed raises.
\<close>

fun tasks_loop :: "material_db \<Rightarrow> json \<Rightarrow> json \<Rightarrow> json list \<Rightarrow> detailed_task list \<Rightarrow> py_exn + detailed_task list" where
  "tasks_loop db area city [] detailed_tasks = Inr detailed_tasks"
| "tasks_loop db area city (JObj task # rest) detailed_tasks =
     (case key_string (dict_get task ''type'' JNull) of
        Inl e \<Rightarrow> Inl e
      | Inr None \<Rightarrow> tasks_loop db area city rest detailed_tasks
      | Inr (Some task_type) \<Rightarrow>
          (case map_of task_definitions task_type of
             None \<Rightarrow> tasks_loop db area city rest detailed_tasks
           | Some task_def \<Rightarrow>
               (case expand_task db area city task task_type task_def of
                  Inl e \<Rightarrow> Inl e
                | Inr None \<Rightarrow> tasks_loop db area city rest detailed_tasks
                | Inr (Some detailed) \<Rightarrow>
                    tasks_loop db area city rest (detailed_tasks @ [detailed]))))"
| "tasks_loop db area city (other # rest) detailed_tasks = Inl AttributeError"

text \<open>\<^verbatim>\<open>PricingEngine._generate_detailed_tasks\<close>, for the catalog \<^verbatim>\<open>db\<close> the engine holds.\<close>

definition generate_detailed_tasks :: "material_db \<Rightarrow> (string \<times> json) list \<Rightarrow> py_exn + detailed_task list" where
  "generate_detailed_tasks db parsed_data =
     (let area = dict_get parsed_data ''area_sqm'' (JNum 4);
          city = dict_get parsed_data ''city'' (JStr ''marseille'')
      in case py_iter (dict_get parsed_data ''tasks'' (JArr [])) of
           Inl e \<Rightarrow> Inl e
         | Inr tasks \<Rightarrow> tasks_loop db area city tasks [])"

text \<open>
  The locals of \<^verbatim>\<open>_calculate_final_quote\<close>: the two subtotals, the margin, the energy
  flag and the result of the VAT calculator.
\<close>

definition subtotal_materials_of :: "detailed_task list \<Rightarrow> rat" where
  "subtotal_materials_of tasks = sum_list (map dt_materials_cost tasks)"

definition subtotal_labor_of :: "detailed_task list \<Rightarrow> rat" where
  "subtotal_labor_of tasks = sum_list (map dt_labor_cost tasks)"

definition margin_percentage_of :: "(string \<times> json) list \<Rightarrow> rat" where
  "margin_percentage_of parsed_data =
     (let budget_conscious = dict_get parsed_data ''budget_conscious'' (JBool False)
      in if truthy budget_conscious then 15 / 100 else 25 / 100)"

definition is_energy_of :: "runtime \<Rightarrow> detailed_task list \<Rightarrow> bool" where
  "is_energy_of rt tasks =
     list_ex (\<lambda>task. str_contains ''energy'' (py_lower (rt_task_str rt task))) tasks"

definition vat_calculation_of :: "runtime \<Rightarrow> (string \<times> json) list \<Rightarrow> detailed_task list \<Rightarrow> vat_result" where
  "vat_calculation_of rt parsed_data tasks =
     (let subtotal_materials = subtotal_materials_of tasks;
          subtotal_labor = subtotal_labor_of tasks;
          margin_percentage = margin_percentage_of parsed_data;
          building_age = 5;
          is_energy = is_energy_of rt tasks
      in calculate_simple_renovation_vat
           (subtotal_materials * (1 + margin_percentage))
           (subtotal_labor * (1 + margin_percentage))
           building_age is_energy)"

text \<open>\<^verbatim>\<open>PricingEngine._calculate_final_quote\<close>.\<close>

definition calculate_final_quote :: "runtime \<Rightarrow> (string \<times> json) list \<Rightarrow> detailed_task list \<Rightarrow> Quote" where
  "calculate_final_quote rt parsed_data tasks =
     (let subtotal_materials = subtotal_materials_of tasks;
          subtotal_labor = subtotal_labor_of tasks;
          margin_percentage = margin_percentage_of parsed_data;
          vat_calculation = vat_calculation_of rt parsed_data tasks
      in \<lparr> q_project_id = ''BTH_'' @ rt_now_stamp rt,
           q_zone = ''bathroom'',
           q_city = dict_get parsed_data ''city'' (JStr ''marseille''),
           q_total_area_sqm = dict_get parsed_data ''area_sqm'' (JNum 4),
           q_tasks = map Detailed tasks,
           q_subtotal_materials = py_round subtotal_materials 2,
           q_subtotal_labor = py_round subtotal_labor 2,
           q_vat_amount = vr_vat_amount vat_calculation,
           q_total_price = vr_total_including_vat vat_calculation,
           q_margin_percentage = margin_percentage,
           q_confidence_score = dict_get parsed_data ''confidence_score'' (JNum (5 / 10)),
           q_parsing_method = dict_get parsed_data ''parsing_method'' (JStr ''unknown''),
           q_created_at = rt_now_iso rt \<rparr>)"

text \<open>\<^verbatim>\<open>PricingEngine._generate_fallback_quote\<close>.\<close>

definition generate_fallback_quote :: "runtime \<Rightarrow> string \<Rightarrow> string \<Rightarrow> Quote" where
  "generate_fallback_quote rt transcript error =
     \<lparr> q_project_id = ''BTH_FALLBACK_'' @ rt_now_stamp rt,
       q_zone = ''bathroom'',
       q_city = JStr ''marseille'',
       q_total_area_sqm = JNum 4,
       q_tasks =
         [Placeholder
            \<lparr> ft_task_type = ''general_renovation'',
              ft_description = ''General bathroom renovation (fallback estimate)'',
              ft_area_sqm = 4,
              ft_labor_hours = 20,
              ft_labor_cost = 800,
              ft_materials = [(''Mixed materials'', 1200)],
              ft_materials_cost = 1200,
              ft_skill_required = ''skilled'',
              ft_error = error \<rparr>],
       q_subtotal_materials = 1200,
       q_subtotal_labor = 800,
       q_vat_amount = 200,
       q_total_price = 2200,
       q_margin_percentage = 20 / 100,
       q_confidence_score = JNum (1 / 10),
       q_parsing_method = JStr ''fallback'',
       q_created_at = rt_now_iso rt \<rparr>"

text \<open>
  \<^verbatim>\<open>print(text)\<close>: the text is encoded for the standard output, which raises when the
  encoding has no code for one of its characters.
\<close>

definition py_print :: "runtime \<Rightarrow> string \<Rightarrow> py_exn + unit" where
  "py_print rt text = (if rt_stdout_can_encode rt text then Inr () else Inl UnicodeEncodeError)"

text \<open>
  The text the handler of \<^verbatim>\<open>generate_quote\<close> prints: the character U+274C (a cross
  mark, three bytes in UTF-8), then \<^verbatim>\<open>" Quote generation failed: "\<close> and the text of the
  exception.
\<close>

definition failure_message :: "string \<Rightarrow> string" where
  "failure_message error =
     [CHR 0xE2, CHR 0x9D, CHR 0x8C] @ '' Quote generation failed: '' @ error"

text \<open>
  The steps of \<^verbatim>\<open>generate_quote\<close> inside \<^verbatim>\<open>try\<close>: parsing, task expansion and final
  assembly. Step 4, \<^verbatim>\<open>_save_quote\<close>, writes a file inside a handler of its own and
  returns nothing; it is left out.
\<close>

definition try_generate_quote :: "runtime \<Rightarrow> material_db \<Rightarrow> string \<Rightarrow> py_exn + Quote" where
  "try_generate_quote rt db transcript =
     (case rt_parse_transcript rt transcript of
        Inl e \<Rightarrow> Inl e
      | Inr parsed_data \<Rightarrow>
          (case generate_detailed_tasks db parsed_data of
             Inl e \<Rightarrow> Inl e
           | Inr tasks \<Rightarrow> Inr (calculate_final_quote rt parsed_data tasks)))"

text \<open>
  \<^verbatim>\<open>PricingEngine.generate_quote\<close>: the steps inside \<^verbatim>\<open>try\<close>, and the handler
  \<^verbatim>\<open>except Exception as e\<close>, which first prints the failure message and then returns the
  fallback quote for \<^verbatim>\<open>str(e)\<close>. An exception of the handler's own \<^verbatim>\<open>print\<close> is caught by
  nothing: it leaves \<^verbatim>\<open>generate_quote\<close>, the left summand of the result.
\<close>

definition generate_quote :: "runtime \<Rightarrow> material_db \<Rightarrow> string \<Rightarrow> py_exn + Quote" where
  "generate_quote rt db transcript =
     (case try_generate_quote rt db transcript of
        Inr quote \<Rightarrow> Inr quote
      | Inl e \<Rightarrow>
          (case py_print rt (failure_message (rt_exn_str rt e)) of
             Inl e' \<Rightarrow> Inl e'
           | Inr u \<Rightarrow> Inr (generate_fallback_quote rt transcript (rt_exn_str rt e))))"

section \<open>Catalogs that differ in availability only\<close>

text \<open>
  The relation between two catalog states that the noninterference property speaks of:
  the same regional multipliers, the same material ids in the same order, and for every
  id the same entry but for its availability score. It is stated by erasing the score on
  both sides.
\<close>

definition erase_availability :: "material_db \<Rightarrow> material_db" where
  "erase_availability db =
     \<lparr> db_materials = map (\<lambda>(k, m). (k, m\<lparr>m_availability_score := 0\<rparr>)) (db_materials db),
       db_regional_multipliers = db_regional_multipliers db \<rparr>"

definition same_up_to_availability :: "material_db \<Rightarrow> material_db \<Rightarrow> bool" where
  "same_up_to_availability db1 db2 = (erase_availability db1 = erase_availability db2)"

section \<open>The materials total as the specification describes it\<close>

text \<open>
  The local variable \<^verbatim>\<open>total_cost\<close> of \<^verbatim>\<open>get_cost_with_margin\<close>, before the result
  dictionary rounds it.
\<close>

definition unrounded_total_cost :: "material_db \<Rightarrow> string \<Rightarrow> rat \<Rightarrow> string \<Rightarrow> rat option" where
  "unrounded_total_cost db material_id quantity region =
     (case get_material db material_id region of
        None \<Rightarrow> None
      | Some material \<Rightarrow>
          (let base_cost = m_base_cost material * quantity;
               margin_amount = base_cost * m_supplier_margin material
           in Some (base_cost + margin_amount)))"

text \<open>
  The materials total of a task as the specification describes it, to be compared with
  what \<^verbatim>\<open>_generate_detailed_tasks\<close> computes: the unrounded totals of the task's materials
  summed up, and the sum rounded once.
\<close>

definition spec_task_materials_cost :: "material_db \<Rightarrow> rat \<Rightarrow> string \<Rightarrow> (string \<times> rat) list \<Rightarrow> rat" where
  "spec_task_materials_cost db area city task_materials =
     py_round
       (sum_list
          (map (\<lambda>(material_id, qty_per_sqm).
                  case unrounded_total_cost db material_id (area * qty_per_sqm) city of
                    Some total_cost \<Rightarrow> total_cost
                  | None \<Rightarrow> 0)
             task_materials))
       2"

section \<open>Sample inputs\<close>

text \<open>
  A runtime for the examples: the parser answers every transcript with the given
  outcome, an exception is printed as its name, a task is printed as its type and its
  description, and the standard output is an ASCII one (as under the C locale, or with
  \<^verbatim>\<open>PYTHONIOENCODING=ascii\<close>).
\<close>

definition sample_runtime :: "(py_exn + (string \<times> json) list) \<Rightarrow> runtime" where
  "sample_runtime parsed =
     \<lparr> rt_parse_transcript = (\<lambda>transcript. parsed),
       rt_exn_str =
         (\<lambda>e. case e of
                TypeError \<Rightarrow> ''TypeError''
              | AttributeError \<Rightarrow> ''AttributeError''
              | OverflowError \<Rightarrow> ''OverflowError''
              | UnicodeEncodeError \<Rightarrow> ''UnicodeEncodeError''
              | ParserFailure text \<Rightarrow> text),
       rt_task_str =
         (\<lambda>task. dt_task_type task @ '' '' @
            (case dt_description task of JStr s \<Rightarrow> s | _ \<Rightarrow> [])),
       rt_stdout_can_encode = (\<lambda>text. list_all (\<lambda>c. (of_char c :: nat) < 128) text),
       rt_now_stamp = ''20250101_120000'',
       rt_now_iso = ''2025-01-01T12:00:00'' \<rparr>"

text \<open>
  The work order of the demolition scenario: 4 square metres in Marseille, the single
  task demolition with no complexity factors, not budget-conscious.
\<close>

definition demolition_order :: "(string \<times> json) list" where
  "demolition_order =
     [(''area_sqm'', JNum 4),
      (''city'', JStr ''marseille''),
      (''tasks'', JArr [JObj [(''type'', JStr ''demolition''), (''complexity_factors'', JArr [])]]),
      (''budget_conscious'', JBool False)]"

text \<open>The detailed task this work order expands to.\<close>

definition demolition_detailed :: detailed_task where
  "demolition_detailed =
     \<lparr> dt_task_type = ''demolition'',
       dt_description = JStr ''Demolition work'',
       dt_area_sqm = JNum 4,
       dt_labor_hours = 6,
       dt_labor_cost = 180,
       dt_materials =
         [\<lparr> ml_name = ''Demolition Supplies'', ml_quantity = 4, ml_unit = unit_sqm,
             ml_unit_cost = 5, ml_total_cost = 22 \<rparr>],
       dt_materials_cost = 22,
       dt_skill_required = ''basic'',
       dt_complexity_factors = JArr [] \<rparr>"

section \<open>Rounding: error, monotonicity, fixed points\<close>

lemma round_half_even_bounds:
  "rat_of_int (round_half_even y) \<le> y + 1 / 2" "y - 1 / 2 \<le> rat_of_int (round_half_even y)"
  by (auto simp: round_half_even_def Let_def; linarith)+

lemma round_half_even_abs: "\<bar>rat_of_int (round_half_even y) - y\<bar> \<le> 1 / 2"
  using round_half_even_bounds [of y] by linarith

lemma round_half_even_of_int: "round_half_even (of_int k) = k"
  by (simp add: round_half_even_def)

lemma round_half_even_floor: "\<lfloor>y\<rfloor> \<le> round_half_even y" "round_half_even y \<le> \<lfloor>y\<rfloor> + 1"
  by (simp_all add: round_half_even_def Let_def)

lemma round_half_even_mono:
  assumes "x \<le> y"
  shows "round_half_even x \<le> round_half_even y"
proof (cases "\<lfloor>x\<rfloor> = \<lfloor>y\<rfloor>")
  case True
  then show ?thesis
    using assms by (auto simp: round_half_even_def Let_def)
next
  case False
  with assms have "\<lfloor>x\<rfloor> + 1 \<le> \<lfloor>y\<rfloor>"
    using floor_mono [of x y] by linarith
  then show ?thesis
    using round_half_even_floor(2) [of x] round_half_even_floor(1) [of y] by linarith
qed

lemma py_round_mono: "x \<le> y \<Longrightarrow> py_round x n \<le> py_round y n"
  unfolding py_round_def
  by (intro divide_right_mono) (simp_all add: round_half_even_mono mult_right_mono)

lemma py_round_of_int: "py_round (of_int k) n = of_int k"
proof -
  have "rat_of_int k * 10 ^ n = rat_of_int (k * 10 ^ n)"
    by simp
  then have "round_half_even (rat_of_int k * 10 ^ n) = k * 10 ^ n"
    using round_half_even_of_int by metis
  then show ?thesis
    by (simp add: py_round_def)
qed

lemma py_round_error: "\<bar>py_round x n - x\<bar> \<le> 1 / (2 * 10 ^ n)"
proof -
  define z where "z = rat_of_int (round_half_even (x * 10 ^ n))"
  have pos: "(0::rat) < 10 ^ n"
    by simp
  have "\<bar>z - x * 10 ^ n\<bar> \<le> 1 / 2"
    unfolding z_def by (rule round_half_even_abs)
  then have "\<bar>z - x * 10 ^ n\<bar> / 10 ^ n \<le> (1 / 2) / 10 ^ n"
    using pos by (intro divide_right_mono) simp_all
  moreover have "py_round x n - x = (z - x * 10 ^ n) / 10 ^ n"
    by (simp add: py_round_def z_def diff_divide_distrib)
  ultimately show ?thesis
    by (simp add: abs_divide)
qed

lemma py_round_idem: "py_round (py_round x n) n = py_round x n"
proof -
  have "py_round x n * 10 ^ n = rat_of_int (round_half_even (x * 10 ^ n))"
    by (simp add: py_round_def)
  then show ?thesis
    by (simp add: py_round_def round_half_even_of_int)
qed

lemma py_round_numeral: "py_round (numeral k) n = numeral k"
  using py_round_of_int [of "numeral k" n] by simp

section \<open>The tax rate resolver\<close>

lemma vat_rate_of_values:
  "vat_rate_of ''energy_efficiency'' = 55 / 1000"
  "vat_rate_of ''renovation'' = 10 / 100"
  "vat_rate_of ''standard'' = 20 / 100"
  by (simp_all add: vat_rate_of_def vat_rates_def)

lemma vat_fields:
  "vr_vat_rate (calculate_simple_renovation_vat m l a e) =
     (if e \<and> a \<ge> 2 then 55 / 1000 else if a \<ge> 2 then 10 / 100 else 20 / 100)"
  "vr_subtotal (calculate_simple_renovation_vat m l a e) = m + l"
  "vr_vat_amount (calculate_simple_renovation_vat m l a e) =
     py_round ((m + l) * (if e \<and> a \<ge> 2 then 55 / 1000 else if a \<ge> 2 then 10 / 100 else 20 / 100)) 2"
  "vr_total_including_vat (calculate_simple_renovation_vat m l a e) =
     py_round ((m + l) +
        (m + l) * (if e \<and> a \<ge> 2 then 55 / 1000 else if a \<ge> 2 then 10 / 100 else 20 / 100)) 2"
  "vr_building_age_years (calculate_simple_renovation_vat m l a e) = a"
  "vr_is_energy_renovation (calculate_simple_renovation_vat m l a e) = e"
  "vr_materials_cost (calculate_simple_renovation_vat m l a e) = m"
  "vr_labor_cost (calculate_simple_renovation_vat m l a e) = l"
  by (simp_all add: calculate_simple_renovation_vat_def vat_rate_of_values Let_def)

text \<open>
  C2. For all materials cost \<open>m\<close>, labor cost \<open>l\<close>, building age \<open>a\<close> and energy flag \<open>e\<close>,
  the simple VAT calculation takes the first rate that matches: 5.5% when \<open>e\<close> holds and
  \<open>a \<ge> 2\<close>, else 10% when \<open>a \<ge> 2\<close>, else 20%. The VAT amount is \<open>(m + l)\<close> times the
  rate and the total is the subtotal plus that amount, each rounded to two decimals.
  With \<open>e\<close> false the rate is 20% for \<open>a\<close> in \<open>{0, 1}\<close> and 10% for every \<open>a \<ge> 2\<close>.
\<close>

theorem simple_vat_ladder:
  "vr_vat_rate (calculate_simple_renovation_vat m l a e) =
     (if e \<and> a \<ge> 2 then 55 / 1000 else if a \<ge> 2 then 10 / 100 else 20 / 100)
   \<and> vr_vat_amount (calculate_simple_renovation_vat m l a e) =
       py_round ((m + l) * vr_vat_rate (calculate_simple_renovation_vat m l a e)) 2
   \<and> vr_total_including_vat (calculate_simple_renovation_vat m l a e) =
       py_round ((m + l) + (m + l) * vr_vat_rate (calculate_simple_renovation_vat m l a e)) 2
   \<and> (a \<in> {0, 1} \<longrightarrow> vr_vat_rate (calculate_simple_renovation_vat m l a False) = 20 / 100)
   \<and> (a \<ge> 2 \<longrightarrow> vr_vat_rate (calculate_simple_renovation_vat m l a False) = 10 / 100)"
  by (auto simp: vat_fields)

theorem simple_vat_ladder_witness:
  "vr_vat_rate (calculate_simple_renovation_vat 100 200 1 False) = 20 / 100
   \<and> vr_vat_rate (calculate_simple_renovation_vat 100 200 7 False) = 10 / 100
   \<and> vr_vat_rate (calculate_simple_renovation_vat 100 200 7 True) = 55 / 1000"
proof -
  have "(1::int) \<in> {0, 1}" and "(2::int) \<le> 7"
    by simp_all
  then show ?thesis
    using simple_vat_ladder [of 100 200 1 False] simple_vat_ladder [of 100 200 7 False]
      simple_vat_ladder [of 100 200 7 True]
    by presburger
qed

lemma final_quote_vat:
  "q_vat_amount (calculate_final_quote rt parsed_data tasks) =
     vr_vat_amount (vat_calculation_of rt parsed_data tasks)"
  "q_total_price (calculate_final_quote rt parsed_data tasks) =
     vr_total_including_vat (vat_calculation_of rt parsed_data tasks)"
  by (simp_all add: calculate_final_quote_def Let_def)

lemma vat_calculation_of_eq:
  "vat_calculation_of rt parsed_data tasks =
     calculate_simple_renovation_vat
       (subtotal_materials_of tasks * (1 + margin_percentage_of parsed_data))
       (subtotal_labor_of tasks * (1 + margin_percentage_of parsed_data))
       5 (is_energy_of rt tasks)"
  by (simp add: vat_calculation_of_def Let_def)

text \<open>
  C4. For all materials subtotal \<open>m\<close>, labor subtotal \<open>l\<close>, margin \<open>p\<close>, building age \<open>a\<close>
  and energy flag \<open>e\<close>: the simple VAT calculation on the two components \<open>m * (1 + p)\<close>
  and \<open>l * (1 + p)\<close> gives the rate, the VAT amount and the total it gives on the single
  amount \<open>(m + l) * (1 + p)\<close>, over exact arithmetic. The quote is built that way: its VAT
  amount and its total price are those of the combined subtotal with margin.
\<close>

theorem vat_on_components_is_vat_on_sum:
  "vr_vat_rate (calculate_simple_renovation_vat (m * (1 + p)) (l * (1 + p)) a e) =
     vr_vat_rate (calculate_simple_renovation_vat ((m + l) * (1 + p)) 0 a e)
   \<and> vr_vat_amount (calculate_simple_renovation_vat (m * (1 + p)) (l * (1 + p)) a e) =
       vr_vat_amount (calculate_simple_renovation_vat ((m + l) * (1 + p)) 0 a e)
   \<and> vr_total_including_vat (calculate_simple_renovation_vat (m * (1 + p)) (l * (1 + p)) a e) =
       vr_total_including_vat (calculate_simple_renovation_vat ((m + l) * (1 + p)) 0 a e)
   \<and> vr_vat_amount (calculate_simple_renovation_vat (m * (1 + p)) (l * (1 + p)) a e) =
       py_round ((m + l) * (1 + p) *
          vr_vat_rate (calculate_simple_renovation_vat (m * (1 + p)) (l * (1 + p)) a e)) 2
   \<and> q_vat_amount (calculate_final_quote rt parsed_data tasks) =
       vr_vat_amount (calculate_simple_renovation_vat
         ((subtotal_materials_of tasks + subtotal_labor_of tasks) *
            (1 + margin_percentage_of parsed_data))
         0 5 (is_energy_of rt tasks))
   \<and> q_total_price (calculate_final_quote rt parsed_data tasks) =
       vr_total_including_vat (calculate_simple_renovation_vat
         ((subtotal_materials_of tasks + subtotal_labor_of tasks) *
            (1 + margin_percentage_of parsed_data))
         0 5 (is_energy_of rt tasks))"
proof -
  have "x * (1 + q) + y * (1 + q) = (x + y) * (1 + q)" for x y q :: rat
    by (simp add: distrib_right)
  then show ?thesis
    by (simp add: vat_fields final_quote_vat vat_calculation_of_eq)
qed

theorem vat_on_components_is_vat_on_sum_witness:
  "vr_vat_amount (calculate_simple_renovation_vat (22 * (1 + 25 / 100)) (180 * (1 + 25 / 100)) 5 False) =
     vr_vat_amount (calculate_simple_renovation_vat ((22 + 180) * (1 + 25 / 100)) 0 5 False)"
  using vat_on_components_is_vat_on_sum [of 22 "25 / 100" 180 5 False] by blast

section \<open>The labor rate engine\<close>

lemma labor_task_cases:
  assumes "map_of labor_task_definitions t = Some d"
  shows "(t, d) \<in> set labor_task_definitions"
  using assms by (rule map_of_SomeD)

lemma labor_minimum_hours_rounded:
  assumes "map_of labor_task_definitions t = Some d"
  shows "py_round (minimum_hours d) 1 = minimum_hours d"
  using labor_task_cases [OF assms]
  by (auto simp: labor_task_definitions_def py_round_numeral)

lemma calculate_task_labor_known:
  assumes "map_of labor_task_definitions t = Some d"
  shows "\<exists>r. calculate_task_labor t a region fs mo rush = Inr r
           \<and> lr_billable_hours r = py_round (billable_hours_of d a) 1
           \<and> lr_final_hours r =
               py_round (billable_hours_of d a * fst (apply_factors (complexity_factors d) fs 1 [])) 1
           \<and> lr_regional_multiplier r = regional_lookup labor_regional_multipliers region"
  using assms by (simp add: calculate_task_labor_def Let_def case_prod_beta)

text \<open>
  C6. For every task type \<open>t\<close> of the labor rule table, with definition \<open>d\<close>, and every
  area (in particular every area \<open>\<ge> 0\<close>), the billable hours the labor calculation
  computes are \<open>max (area * hours_per_sqm d) (minimum_hours d)\<close>, hence at least the
  minimum hours of \<open>t\<close>. The calculation succeeds; the final hours are these billable
  hours times the complexity multiplier, and the \<^verbatim>\<open>billable_hours\<close> entry of the result,
  which is that value rounded to one decimal, is at least the minimum hours too.
\<close>

theorem billable_hours_minimum:
  assumes "map_of labor_task_definitions t = Some d"
  shows "billable_hours_of d area = max (area * hours_per_sqm d) (minimum_hours d)
         \<and> minimum_hours d \<le> billable_hours_of d area
         \<and> (\<exists>r. calculate_task_labor t area region fs mo rush = Inr r
               \<and> lr_billable_hours r = py_round (billable_hours_of d area) 1
               \<and> minimum_hours d \<le> lr_billable_hours r
               \<and> lr_final_hours r =
                   py_round (billable_hours_of d area *
                      fst (apply_factors (complexity_factors d) fs 1 [])) 1)"
proof -
  have b: "billable_hours_of d area = max (area * hours_per_sqm d) (minimum_hours d)"
    by (simp add: billable_hours_of_def)
  then have m: "minimum_hours d \<le> billable_hours_of d area"
    by simp
  obtain r where r: "calculate_task_labor t area region fs mo rush = Inr r"
    "lr_billable_hours r = py_round (billable_hours_of d area) 1"
    "lr_final_hours r =
       py_round (billable_hours_of d area * fst (apply_factors (complexity_factors d) fs 1 [])) 1"
    using calculate_task_labor_known [OF assms] by blast
  have "py_round (minimum_hours d) 1 \<le> py_round (billable_hours_of d area) 1"
    using m by (rule py_round_mono)
  then have "minimum_hours d \<le> lr_billable_hours r"
    using labor_minimum_hours_rounded [OF assms] r(2) by simp
  with b m r show ?thesis
    by blast
qed

lemma tiling_def_lookup:
  "map_of labor_task_definitions ''tiling'' =
     Some \<lparr> skill_level = SKILLED, hours_per_sqm = 28 / 10, minimum_hours = 6,
           complexity_factors =
             [(''small_tiles'', 14 / 10), (''pattern_work'', 16 / 10),
              (''curved_surfaces'', 15 / 10), (''waterproofing'', 13 / 10)] \<rparr>"
  by code_simp

theorem billable_hours_minimum_witness:
  "\<exists>r. calculate_task_labor ''tiling'' (1 / 2) ''lyon'' [''small_tiles''] None False = Inr r
      \<and> 6 \<le> lr_billable_hours r"
  using billable_hours_minimum [OF tiling_def_lookup, of "1 / 2" "''lyon''" "[''small_tiles'']" None False]
  by auto

text \<open>
  The entry of the result is the rounded value: 2.21 square metres of tiling are 6.188
  billable hours, reported as 6.2, while the labor cost is computed from 6.188.
\<close>

lemma billable_hours_entry_is_rounded:
  "map_sum id (\<lambda>r. (lr_billable_hours r, lr_base_labor_cost r))
     (calculate_task_labor ''tiling'' (221 / 100) ''marseille'' [] None False) =
   Inr (62 / 10, py_round (6188 / 1000 * 42) 2)"
  by code_simp

section \<open>Regional multipliers\<close>

lemma regional_lookup_absent:
  assumes "py_lower city \<notin> set (map fst table)"
  shows "regional_lookup table city = 1"
proof -
  have "map_of table (py_lower city) = None"
    using assms by (simp add: map_of_eq_None_iff)
  then show ?thesis
    by (simp add: regional_lookup_def)
qed

lemma marseille_multipliers:
  "regional_lookup labor_regional_multipliers ''marseille'' = 1"
  "regional_lookup material_regional_multipliers ''marseille'' = 1"
  by code_simp+

lemma calculate_task_labor_region:
  assumes "regional_lookup labor_regional_multipliers c1 = regional_lookup labor_regional_multipliers c2"
  shows "calculate_task_labor t a c1 fs mo rush = calculate_task_labor t a c2 fs mo rush"
  using assms by (simp add: calculate_task_labor_def Let_def split: option.splits)

lemma get_material_region:
  assumes "regional_lookup (db_regional_multipliers db) c1 = regional_lookup (db_regional_multipliers db) c2"
  shows "get_material db m c1 = get_material db m c2"
  using assms by (simp add: get_material_def Let_def split: option.splits)

lemma get_cost_with_margin_region:
  assumes "regional_lookup (db_regional_multipliers db) c1 = regional_lookup (db_regional_multipliers db) c2"
  shows "get_cost_with_margin db m q c1 = get_cost_with_margin db m q c2"
  using get_material_region [OF assms] by (simp add: get_cost_with_margin_def)

lemma get_cost_with_margin_known:
  assumes "map_of (db_materials db) m = Some mat"
  shows "get_cost_with_margin db m q city =
     Inr \<lparr> ci_material_id = m,
           ci_name = m_name mat,
           ci_quantity = q,
           ci_unit = m_unit mat,
           ci_unit_cost = m_base_cost mat * regional_lookup (db_regional_multipliers db) city,
           ci_base_cost = py_round (m_base_cost mat * regional_lookup (db_regional_multipliers db) city * q) 2,
           ci_margin = py_round (m_base_cost mat * regional_lookup (db_regional_multipliers db) city * q
                          * m_supplier_margin mat) 2,
           ci_total_cost = py_round (m_base_cost mat * regional_lookup (db_regional_multipliers db) city * q
                          + m_base_cost mat * regional_lookup (db_regional_multipliers db) city * q
                            * m_supplier_margin mat) 2,
           ci_availability_score = m_availability_score mat,
           ci_quality_grade = m_quality_grade mat \<rparr>"
  using assms by (simp add: get_cost_with_margin_def get_material_def Let_def)

lemma get_cost_with_margin_unknown:
  assumes "map_of (db_materials db) m = None"
  shows "get_cost_with_margin db m q city = Inl (''Material '' @ m @ '' not found'')"
  using assms by (simp add: get_cost_with_margin_def get_material_def)

text \<open>
  C7. For every city that is absent from a regional multiplier table (the table is keyed
  by lower-case names and read with the lower-cased city), the multiplier is exactly 1
  and the lookup has no error case. For the labor table: labor pricing gives what it
  gives for the baseline city Marseille and succeeds for every known task type. For the
  material table of any catalog: the multiplier is 1 and costing a known material
  succeeds at its base cost; for the default catalog the result is that of Marseille.
\<close>

theorem unknown_city_multiplier:
  "(py_lower city \<notin> set (map fst labor_regional_multipliers) \<longrightarrow>
      regional_lookup labor_regional_multipliers city = 1
      \<and> calculate_task_labor t a city fs mo rush = calculate_task_labor t a ''marseille'' fs mo rush
      \<and> (\<forall>d. map_of labor_task_definitions t = Some d \<longrightarrow>
            (\<exists>r. calculate_task_labor t a city fs mo rush = Inr r \<and> lr_regional_multiplier r = 1)))
   \<and> (py_lower city \<notin> set (map fst (db_regional_multipliers db)) \<longrightarrow>
      regional_lookup (db_regional_multipliers db) city = 1
      \<and> (\<forall>mat. map_of (db_materials db) m = Some mat \<longrightarrow>
            (\<exists>c. get_cost_with_margin db m q city = Inr c \<and> ci_unit_cost c = m_base_cost mat)))
   \<and> (py_lower city \<notin> set (map fst material_regional_multipliers) \<longrightarrow>
      get_cost_with_margin (MaterialDatabase now) m q city =
        get_cost_with_margin (MaterialDatabase now) m q ''marseille'')"
proof (intro conjI impI allI)
  assume a: "py_lower city \<notin> set (map fst labor_regional_multipliers)"
  show one: "regional_lookup labor_regional_multipliers city = 1"
    using a by (rule regional_lookup_absent)
  show "calculate_task_labor t a city fs mo rush = calculate_task_labor t a ''marseille'' fs mo rush"
    by (rule calculate_task_labor_region) (simp add: one marseille_multipliers)
  fix d
  assume "map_of labor_task_definitions t = Some d"
  from calculate_task_labor_known [OF this, of a city fs mo rush] one
  show "\<exists>r. calculate_task_labor t a city fs mo rush = Inr r \<and> lr_regional_multiplier r = 1"
    by auto
next
  assume a: "py_lower city \<notin> set (map fst (db_regional_multipliers db))"
  show one: "regional_lookup (db_regional_multipliers db) city = 1"
    using a by (rule regional_lookup_absent)
  fix mat
  assume "map_of (db_materials db) m = Some mat"
  from get_cost_with_margin_known [OF this, of q city] one
  show "\<exists>c. get_cost_with_margin db m q city = Inr c \<and> ci_unit_cost c = m_base_cost mat"
    by simp
next
  assume a: "py_lower city \<notin> set (map fst material_regional_multipliers)"
  have "regional_lookup (db_regional_multipliers (MaterialDatabase now)) city = 1"
    using a by (simp add: MaterialDatabase_def regional_lookup_absent)
  moreover have "regional_lookup (db_regional_multipliers (MaterialDatabase now)) ''marseille'' = 1"
    by (simp add: MaterialDatabase_def marseille_multipliers)
  ultimately show "get_cost_with_margin (MaterialDatabase now) m q city =
        get_cost_with_margin (MaterialDatabase now) m q ''marseille''"
    by (intro get_cost_with_margin_region) simp
qed

lemma berlin_absent:
  "py_lower ''Berlin'' \<notin> set (map fst labor_regional_multipliers)"
  "py_lower ''Berlin'' \<notin> set (map fst material_regional_multipliers)"
  by code_simp+

theorem unknown_city_multiplier_witness:
  "regional_lookup labor_regional_multipliers ''Berlin'' = 1
   \<and> calculate_task_labor ''tiling'' 4 ''Berlin'' [] None False =
       calculate_task_labor ''tiling'' 4 ''marseille'' [] None False
   \<and> get_cost_with_margin (MaterialDatabase ''t'') ''primer'' 2 ''Berlin'' =
       get_cost_with_margin (MaterialDatabase ''t'') ''primer'' 2 ''marseille''"
  using unknown_city_multiplier [of "''Berlin''" "''tiling''" 4 "[]" None False
      "MaterialDatabase ''t''" "''primer''" 2 "''t''"] berlin_absent
  by blast

text \<open>
  The letter case of the city does not matter to the lookup: a city of the table is found
  however it is written.
\<close>

lemma city_lookup_ignores_case:
  "regional_lookup labor_regional_multipliers ''PARIS'' = 145 / 100"
  "regional_lookup material_regional_multipliers ''Paris'' = 135 / 100"
  by code_simp+

section \<open>The material catalog\<close>

text \<open>
  C8. For every material id \<open>m\<close> of the catalog, every quantity \<open>q \<ge> 0\<close> and every city,
  the total cost for quantity \<open>q\<close> is the total cost for quantity 1 times \<open>q\<close> within
  rounding tolerance: both are roundings to two decimals of amounts \<open>u * q\<close> and \<open>u\<close> that
  are exactly linear, so they differ by at most half a cent for the rounding of the one
  and half a cent per unit for the rounding of the other, \<open>(1 + q) / 200\<close> in all.
\<close>

theorem cost_linear_in_quantity:
  assumes "map_of (db_materials db) m = Some mat" and "0 \<le> q"
  shows "\<exists>c1 cq u. get_cost_with_margin db m 1 city = Inr c1
           \<and> get_cost_with_margin db m q city = Inr cq
           \<and> ci_total_cost c1 = py_round u 2
           \<and> ci_total_cost cq = py_round (u * q) 2
           \<and> \<bar>ci_total_cost cq - ci_total_cost c1 * q\<bar> \<le> (1 + q) / 200"
proof -
  define unit_cost where "unit_cost = m_base_cost mat * regional_lookup (db_regional_multipliers db) city"
  define u where "u = unit_cost + unit_cost * m_supplier_margin mat"
  obtain c1 where c1: "get_cost_with_margin db m 1 city = Inr c1" "ci_total_cost c1 = py_round u 2"
    using get_cost_with_margin_known [OF assms(1), of 1 city] by (simp add: u_def unit_cost_def)
  have "unit_cost * q + unit_cost * q * m_supplier_margin mat = u * q"
    by (simp add: u_def algebra_simps)
  then obtain cq where cq: "get_cost_with_margin db m q city = Inr cq" "ci_total_cost cq = py_round (u * q) 2"
    using get_cost_with_margin_known [OF assms(1), of q city] by (simp add: unit_cost_def)
  have e1: "\<bar>py_round u 2 - u\<bar> \<le> 1 / 200"
    using py_round_error [of u 2] by simp
  have eq: "\<bar>py_round (u * q) 2 - u * q\<bar> \<le> 1 / 200"
    using py_round_error [of "u * q" 2] by simp
  have "\<bar>py_round u 2 * q - u * q\<bar> = \<bar>py_round u 2 - u\<bar> * q"
    using assms(2) by (simp add: left_diff_distrib [symmetric] abs_mult)
  also have "\<dots> \<le> (1 / 200) * q"
    using e1 assms(2) by (rule mult_right_mono)
  finally have "\<bar>py_round u 2 * q - u * q\<bar> \<le> q / 200"
    by simp
  with eq have "\<bar>py_round (u * q) 2 - py_round u 2 * q\<bar> \<le> 1 / 200 + q / 200"
    by linarith
  then have "\<bar>py_round (u * q) 2 - py_round u 2 * q\<bar> \<le> (1 + q) / 200"
    by (simp add: add_divide_distrib)
  with c1 cq show ?thesis
    by auto
qed

lemma adhesive_lookup:
  "map_of (db_materials (MaterialDatabase ''t'')) ''tile_adhesive'' =
     Some (Material ''t'' ''Flexible Tile Adhesive'' ''consumables'' ''kg'' (28 / 10) (10 / 100) ''standard'' (95 / 100))"
  by code_simp

theorem cost_linear_in_quantity_witness:
  "\<exists>c1 cq. get_cost_with_margin (MaterialDatabase ''t'') ''tile_adhesive'' 1 ''paris'' = Inr c1
      \<and> get_cost_with_margin (MaterialDatabase ''t'') ''tile_adhesive'' 10 ''paris'' = Inr cq
      \<and> \<bar>ci_total_cost cq - ci_total_cost c1 * 10\<bar> \<le> (1 + 10) / 200"
proof -
  have "(0::rat) \<le> 10"
    by simp
  from cost_linear_in_quantity [OF adhesive_lookup this, of "''paris''"] show ?thesis
    by blast
qed

text \<open>
  The tolerance grows with the quantity: ten units of tile adhesive in Paris cost 41.58,
  two cents less than ten times the 4.16 of one unit.
\<close>

lemma ten_units_are_not_ten_times_one:
  "map_sum id ci_total_cost
     (get_cost_with_margin (MaterialDatabase ''t'') ''tile_adhesive'' 1 ''paris'') = Inr (416 / 100)"
  "map_sum id ci_total_cost
     (get_cost_with_margin (MaterialDatabase ''t'') ''tile_adhesive'' 10 ''paris'') = Inr (4158 / 100)"
  by code_simp+

lemma map_of_erased:
  "map_of (db_materials (erase_availability db)) m =
     map_option (\<lambda>x. x\<lparr>m_availability_score := 0\<rparr>) (map_of (db_materials db) m)"
  by (simp add: erase_availability_def map_of_map [unfolded comp_def, THEN fun_cong])

lemma erased_material_fields:
  assumes "x\<lparr>m_availability_score := 0\<rparr> = y\<lparr>m_availability_score := 0\<rparr>"
  shows "m_name x = m_name y" "m_unit x = m_unit y" "m_base_cost x = m_base_cost y"
    "m_supplier_margin x = m_supplier_margin y" "m_quality_grade x = m_quality_grade y"
  using assms by (cases x; cases y; simp)+

text \<open>
  C9. For two catalog states that differ in availability scores only, and every material
  id, quantity and city, the material-cost operation returns the same result but for
  the availability entry it copies: in particular the same unit cost, base cost, margin
  and total cost, and the same error for an unknown id.
\<close>

theorem availability_noninterference:
  assumes "same_up_to_availability db1 db2"
  shows "map_sum id (\<lambda>c. c\<lparr>ci_availability_score := 0\<rparr>) (get_cost_with_margin db1 m q city) =
         map_sum id (\<lambda>c. c\<lparr>ci_availability_score := 0\<rparr>) (get_cost_with_margin db2 m q city)
       \<and> map_sum id (\<lambda>c. (ci_unit_cost c, ci_base_cost c, ci_margin c, ci_total_cost c))
           (get_cost_with_margin db1 m q city) =
         map_sum id (\<lambda>c. (ci_unit_cost c, ci_base_cost c, ci_margin c, ci_total_cost c))
           (get_cost_with_margin db2 m q city)"
proof -
  have e: "erase_availability db1 = erase_availability db2"
    using assms by (simp add: same_up_to_availability_def)
  then have r: "db_regional_multipliers db1 = db_regional_multipliers db2"
    by (simp add: erase_availability_def)
  have o: "map_option (\<lambda>x. x\<lparr>m_availability_score := 0\<rparr>) (map_of (db_materials db1) m) =
           map_option (\<lambda>x. x\<lparr>m_availability_score := 0\<rparr>) (map_of (db_materials db2) m)"
    using e map_of_erased [of db1 m] map_of_erased [of db2 m] by simp
  show ?thesis
  proof (cases "map_of (db_materials db1) m")
    case None
    with o have "map_of (db_materials db2) m = None"
      by simp
    with None show ?thesis
      by (simp add: get_cost_with_margin_unknown)
  next
    case (Some x)
    with o obtain y where y: "map_of (db_materials db2) m = Some y"
      "x\<lparr>m_availability_score := 0\<rparr> = y\<lparr>m_availability_score := 0\<rparr>"
      by (cases "map_of (db_materials db2) m") simp_all
    show ?thesis
      using erased_material_fields [OF y(2)] r
      by (simp add: get_cost_with_margin_known [OF Some] get_cost_with_margin_known [OF y(1)])
  qed
qed

lemma erase_availability_idem:
  "erase_availability (erase_availability db) = erase_availability db"
  by (simp add: erase_availability_def case_prod_beta comp_def)

theorem availability_noninterference_witness:
  "map_sum id (\<lambda>c. (ci_unit_cost c, ci_base_cost c, ci_margin c, ci_total_cost c))
     (get_cost_with_margin (MaterialDatabase ''t'') ''primer'' 3 ''lyon'') =
   map_sum id (\<lambda>c. (ci_unit_cost c, ci_base_cost c, ci_margin c, ci_total_cost c))
     (get_cost_with_margin (erase_availability (MaterialDatabase ''t'')) ''primer'' 3 ''lyon'')"
proof -
  have "same_up_to_availability (MaterialDatabase ''t'') (erase_availability (MaterialDatabase ''t''))"
    by (simp add: same_up_to_availability_def erase_availability_idem)
  from availability_noninterference [OF this, of "''primer''" 3 "''lyon''"] show ?thesis
    by blast
qed

section \<open>Rounding and accumulation of material costs\<close>

lemma unrounded_total_cost_known:
  assumes "map_of (db_materials db) m = Some mat"
  shows "unrounded_total_cost db m q region =
     Some (m_base_cost mat * regional_lookup (db_regional_multipliers db) region * q
           + m_base_cost mat * regional_lookup (db_regional_multipliers db) region * q
             * m_supplier_margin mat)"
  using assms by (simp add: unrounded_total_cost_def get_material_def Let_def)

lemma rounded_total_of_unrounded:
  "(case get_cost_with_margin db m q region of Inl err \<Rightarrow> 0 | Inr c \<Rightarrow> ci_total_cost c) =
   (case unrounded_total_cost db m q region of None \<Rightarrow> 0 | Some total_cost \<Rightarrow> py_round total_cost 2)"
  by (simp add: get_cost_with_margin_def unrounded_total_cost_def Let_def split: option.splits)

lemma call_get_cost_with_margin_string:
  "call_get_cost_with_margin db m q (JStr region) = Inr (get_cost_with_margin db m q region)"
  by (simp add: call_get_cost_with_margin_def)

lemma materials_loop_closed_form:
  assumes "float_operand area = Inr a"
  shows "materials_loop db area (JStr region) mats ms tot =
     Inr (ms @ concat (map (\<lambda>(material_id, qty_per_sqm).
                 case get_cost_with_margin db material_id (a * qty_per_sqm) region of
                   Inl err \<Rightarrow> []
                 | Inr c \<Rightarrow>
                     [\<lparr> ml_name = ci_name c, ml_quantity = ci_quantity c, ml_unit = ci_unit c,
                        ml_unit_cost = ci_unit_cost c, ml_total_cost = ci_total_cost c \<rparr>]) mats),
          tot + sum_list (map (\<lambda>(material_id, qty_per_sqm).
                 case get_cost_with_margin db material_id (a * qty_per_sqm) region of
                   Inl err \<Rightarrow> 0
                 | Inr c \<Rightarrow> ci_total_cost c) mats))"
proof (induction mats arbitrary: ms tot)
  case Nil
  show ?case
    by simp
next
  case (Cons entry mats)
  obtain material_id qty where entry: "entry = (material_id, qty)"
    by (cases entry)
  show ?case
  proof (cases "get_cost_with_margin db material_id (a * qty) region")
    case (Inl err)
    then show ?thesis
      by (simp add: entry assms call_get_cost_with_margin_string Cons.IH)
  next
    case (Inr c)
    then show ?thesis
      by (simp add: entry assms call_get_cost_with_margin_string Cons.IH add.assoc)
  qed
qed

lemma lines_total:
  "sum_list (map ml_total_cost
     (concat (map (\<lambda>(material_id, qty_per_sqm).
                 case get_cost_with_margin db material_id (a * qty_per_sqm) region of
                   Inl err \<Rightarrow> []
                 | Inr c \<Rightarrow>
                     [\<lparr> ml_name = ci_name c, ml_quantity = ci_quantity c, ml_unit = ci_unit c,
                        ml_unit_cost = ci_unit_cost c, ml_total_cost = ci_total_cost c \<rparr>]) mats))) =
   sum_list (map (\<lambda>(material_id, qty_per_sqm).
                 case get_cost_with_margin db material_id (a * qty_per_sqm) region of
                   Inl err \<Rightarrow> 0
                 | Inr c \<Rightarrow> ci_total_cost c) mats)"
  by (induction mats) (auto split: sum.splits)

lemma labor_call_needs_typed_arguments:
  assumes "call_calculate_task_labor task_type area city factors = Inr (Inr labor_result)"
  shows "\<exists>a region. float_operand area = Inr a \<and> city = JStr region"
  using assms
  by (auto simp: call_calculate_task_labor_def split: option.splits sum.splits json.splits)

lemma expand_task_closed_form:
  assumes "expand_task db area city task task_type task_def = Inr (Some d)"
  shows "\<exists>a region. float_operand area = Inr a \<and> city = JStr region
       \<and> dt_materials d =
           concat (map (\<lambda>(material_id, qty_per_sqm).
                 case get_cost_with_margin db material_id (a * qty_per_sqm) region of
                   Inl err \<Rightarrow> []
                 | Inr c \<Rightarrow>
                     [\<lparr> ml_name = ci_name c, ml_quantity = ci_quantity c, ml_unit = ci_unit c,
                        ml_unit_cost = ci_unit_cost c, ml_total_cost = ci_total_cost c \<rparr>])
              (e_materials task_def))
       \<and> dt_materials_cost d = py_round (sum_list (map ml_total_cost (dt_materials d))) 2
       \<and> dt_materials_cost d =
           py_round (sum_list (map (\<lambda>(material_id, qty_per_sqm).
                 case unrounded_total_cost db material_id (a * qty_per_sqm) region of
                   None \<Rightarrow> 0
                 | Some total_cost \<Rightarrow> py_round total_cost 2)
              (e_materials task_def))) 2"
proof -
  from assms obtain materials total labor_result where
    m: "materials_loop db area city (e_materials task_def) [] 0 = Inr (materials, total)" and
    l: "call_calculate_task_labor (remove_underscores task_type) area city
          (dict_get task ''complexity_factors'' (JArr [])) = Inr (Inr labor_result)" and
    d: "dt_materials d = materials" "dt_materials_cost d = py_round total 2"
    by (auto simp: expand_task_def split: sum.splits)
  from labor_call_needs_typed_arguments [OF l] obtain a region where
    t: "float_operand area = Inr a" "city = JStr region"
    by blast
  let ?lines = "concat (map (\<lambda>(material_id, qty_per_sqm).
                 case get_cost_with_margin db material_id (a * qty_per_sqm) region of
                   Inl err \<Rightarrow> []
                 | Inr c \<Rightarrow>
                     [\<lparr> ml_name = ci_name c, ml_quantity = ci_quantity c, ml_unit = ci_unit c,
                        ml_unit_cost = ci_unit_cost c, ml_total_cost = ci_total_cost c \<rparr>])
              (e_materials task_def))"
  from m have c: "materials = ?lines"
    "total = sum_list (map (\<lambda>(material_id, qty_per_sqm).
                 case get_cost_with_margin db material_id (a * qty_per_sqm) region of
                   Inl err \<Rightarrow> 0
                 | Inr c \<Rightarrow> ci_total_cost c) (e_materials task_def))"
    unfolding t(2) materials_loop_closed_form [OF t(1)] by simp_all
  have s1: "total = sum_list (map ml_total_cost materials)"
    unfolding c by (rule lines_total [symmetric])
  have s2: "total = sum_list (map (\<lambda>(material_id, qty_per_sqm).
                 case unrounded_total_cost db material_id (a * qty_per_sqm) region of
                   None \<Rightarrow> 0
                 | Some total_cost \<Rightarrow> py_round total_cost 2)
              (e_materials task_def))"
    unfolding c(2) by (simp add: rounded_total_of_unrounded)
  show ?thesis
    using t d c(1) s1 s2 by auto
qed

text \<open>
  C5, as amended. The material-cost operation rounds base cost, margin and total cost to
  two decimals; the unit cost it returns is not rounded. Accumulation across line items
  uses the rounded values: a task's material lines are copied from the results of the
  material-cost operation, one for every material of the task the catalog knows; the
  materials total of the task is the sum of the rounded total costs of these lines,
  rounded again; and the materials subtotal of the quote is the sum of the rounded
  totals of its tasks, rounded again.
\<close>

theorem materials_rounded_before_accumulation:
  "(map_of (db_materials db) m = Some mat \<longrightarrow>
      (\<exists>c. get_cost_with_margin db m q region = Inr c
          \<and> ci_unit_cost c = m_base_cost mat * regional_lookup (db_regional_multipliers db) region
          \<and> ci_base_cost c = py_round (ci_unit_cost c * q) 2
          \<and> ci_margin c = py_round (ci_unit_cost c * q * m_supplier_margin mat) 2
          \<and> unrounded_total_cost db m q region =
              Some (ci_unit_cost c * q + ci_unit_cost c * q * m_supplier_margin mat)
          \<and> ci_total_cost c =
              py_round (ci_unit_cost c * q + ci_unit_cost c * q * m_supplier_margin mat) 2))
   \<and> (expand_task db area city task task_type task_def = Inr (Some d) \<longrightarrow>
        (\<exists>a region. float_operand area = Inr a \<and> city = JStr region
           \<and> dt_materials d =
               concat (map (\<lambda>(material_id, qty_per_sqm).
                     case get_cost_with_margin db material_id (a * qty_per_sqm) region of
                       Inl err \<Rightarrow> []
                     | Inr c \<Rightarrow>
                         [\<lparr> ml_name = ci_name c, ml_quantity = ci_quantity c, ml_unit = ci_unit c,
                            ml_unit_cost = ci_unit_cost c, ml_total_cost = ci_total_cost c \<rparr>])
                  (e_materials task_def))
           \<and> dt_materials_cost d = py_round (sum_list (map ml_total_cost (dt_materials d))) 2
           \<and> dt_materials_cost d =
               py_round (sum_list (map (\<lambda>(material_id, qty_per_sqm).
                     case unrounded_total_cost db material_id (a * qty_per_sqm) region of
                       None \<Rightarrow> 0
                     | Some total_cost \<Rightarrow> py_round total_cost 2)
                  (e_materials task_def))) 2))
   \<and> q_subtotal_materials (calculate_final_quote rt parsed_data tasks) =
        py_round (sum_list (map dt_materials_cost tasks)) 2"
proof (intro conjI impI)
  assume "map_of (db_materials db) m = Some mat"
  then show "\<exists>c. get_cost_with_margin db m q region = Inr c
          \<and> ci_unit_cost c = m_base_cost mat * regional_lookup (db_regional_multipliers db) region
          \<and> ci_base_cost c = py_round (ci_unit_cost c * q) 2
          \<and> ci_margin c = py_round (ci_unit_cost c * q * m_supplier_margin mat) 2
          \<and> unrounded_total_cost db m q region =
              Some (ci_unit_cost c * q + ci_unit_cost c * q * m_supplier_margin mat)
          \<and> ci_total_cost c =
              py_round (ci_unit_cost c * q + ci_unit_cost c * q * m_supplier_margin mat) 2"
    by (simp add: get_cost_with_margin_known unrounded_total_cost_known)
next
  assume "expand_task db area city task task_type task_def = Inr (Some d)"
  then show "\<exists>a region. float_operand area = Inr a \<and> city = JStr region
           \<and> dt_materials d =
               concat (map (\<lambda>(material_id, qty_per_sqm).
                     case get_cost_with_margin db material_id (a * qty_per_sqm) region of
                       Inl err \<Rightarrow> []
                     | Inr c \<Rightarrow>
                         [\<lparr> ml_name = ci_name c, ml_quantity = ci_quantity c, ml_unit = ci_unit c,
                            ml_unit_cost = ci_unit_cost c, ml_total_cost = ci_total_cost c \<rparr>])
                  (e_materials task_def))
           \<and> dt_materials_cost d = py_round (sum_list (map ml_total_cost (dt_materials d))) 2
           \<and> dt_materials_cost d =
               py_round (sum_list (map (\<lambda>(material_id, qty_per_sqm).
                     case unrounded_total_cost db material_id (a * qty_per_sqm) region of
                       None \<Rightarrow> 0
                     | Some total_cost \<Rightarrow> py_round total_cost 2)
                  (e_materials task_def))) 2"
    by (rule expand_task_closed_form)
next
  show "q_subtotal_materials (calculate_final_quote rt parsed_data tasks) =
        py_round (sum_list (map dt_materials_cost tasks)) 2"
    by (simp add: calculate_final_quote_def subtotal_materials_of_def Let_def)
qed

lemma painting_expansion:
  "expand_task (MaterialDatabase ''t'') (JNum (36 / 10)) (JStr ''marseille'')
     [(''type'', JStr ''painting'')] ''painting''
     \<lparr> e_skill_level = BASIC, e_hours_per_sqm = 1,
       e_materials = [(''bathroom_paint_basic'', 2 / 10), (''primer'', 15 / 100)] \<rparr> =
   Inr (Some
     \<lparr> dt_task_type = ''painting'',
       dt_description = JStr ''Painting work'',
       dt_area_sqm = JNum (36 / 10),
       dt_labor_hours = 4,
       dt_labor_cost = 120,
       dt_materials =
         [\<lparr> ml_name = ''Bathroom Paint - Anti-mold Basic'', ml_quantity = 72 / 100,
             ml_unit = ''liter'', ml_unit_cost = 15, ml_total_cost = 1210 / 100 \<rparr>,
          \<lparr> ml_name = ''Wall Primer - Bathroom'', ml_quantity = 54 / 100,
             ml_unit = ''liter'', ml_unit_cost = 12, ml_total_cost = 726 / 100 \<rparr>],
       dt_materials_cost = 1936 / 100,
       dt_skill_required = ''basic'',
       dt_complexity_factors = JArr [] \<rparr>)"
  by code_simp

theorem materials_rounded_before_accumulation_witness:
  "(\<exists>c. get_cost_with_margin (MaterialDatabase ''t'') ''tile_adhesive'' 6 ''paris'' = Inr c
       \<and> ci_base_cost c = py_round (ci_unit_cost c * 6) 2)
   \<and> map_sum id (map_option dt_materials_cost)
       (expand_task (MaterialDatabase ''t'') (JNum (36 / 10)) (JStr ''marseille'')
          [(''type'', JStr ''painting'')] ''painting''
          \<lparr> e_skill_level = BASIC, e_hours_per_sqm = 1,
            e_materials = [(''bathroom_paint_basic'', 2 / 10), (''primer'', 15 / 100)] \<rparr>) =
     Inr (Some (py_round (sum_list (map (\<lambda>(material_id, qty_per_sqm).
                 case unrounded_total_cost (MaterialDatabase ''t'') material_id
                        (36 / 10 * qty_per_sqm) ''marseille'' of
                   None \<Rightarrow> 0
                 | Some total_cost \<Rightarrow> py_round total_cost 2)
              [(''bathroom_paint_basic'', 2 / 10), (''primer'', 15 / 100)])) 2))"
proof -
  let ?task_def = "\<lparr> e_skill_level = BASIC, e_hours_per_sqm = 1,
           e_materials = [(''bathroom_paint_basic'', 2 / 10), (''primer'', 15 / 100)] \<rparr>"
  let ?d = "\<lparr> dt_task_type = ''painting'',
       dt_description = JStr ''Painting work'',
       dt_area_sqm = JNum (36 / 10),
       dt_labor_hours = 4,
       dt_labor_cost = 120,
       dt_materials =
         [\<lparr> ml_name = ''Bathroom Paint - Anti-mold Basic'', ml_quantity = 72 / 100,
             ml_unit = ''liter'', ml_unit_cost = 15, ml_total_cost = 1210 / 100 \<rparr>,
          \<lparr> ml_name = ''Wall Primer - Bathroom'', ml_quantity = 54 / 100,
             ml_unit = ''liter'', ml_unit_cost = 12, ml_total_cost = 726 / 100 \<rparr>],
       dt_materials_cost = 1936 / 100,
       dt_skill_required = ''basic'',
       dt_complexity_factors = JArr [] \<rparr>"
  note t = materials_rounded_before_accumulation
    [where db = "MaterialDatabase ''t''" and m = "''tile_adhesive''"
       and mat = "Material ''t'' ''Flexible Tile Adhesive'' ''consumables'' ''kg'' (28 / 10) (10 / 100) ''standard'' (95 / 100)"
       and q = 6 and region = "''paris''" and area = "JNum (36 / 10)"
       and city = "JStr ''marseille''" and task = "[(''type'', JStr ''painting'')]"
       and task_type = "''painting''" and task_def = ?task_def and d = ?d]
  from t [THEN conjunct1, THEN mp, OF adhesive_lookup]
  have first: "\<exists>c. get_cost_with_margin (MaterialDatabase ''t'') ''tile_adhesive'' 6 ''paris'' = Inr c
       \<and> ci_base_cost c = py_round (ci_unit_cost c * 6) 2"
    by (elim exE conjE, intro exI conjI) assumption+
  have e: "expand_task (MaterialDatabase ''t'') (JNum (36 / 10)) (JStr ''marseille'')
             [(''type'', JStr ''painting'')] ''painting'' ?task_def = Inr (Some ?d)"
    by (rule painting_expansion)
  from t [THEN conjunct2, THEN conjunct1, THEN mp, OF e]
  obtain a region where a: "float_operand (JNum (36 / 10)) = Inr a"
    and r: "JStr ''marseille'' = JStr region"
    and c: "dt_materials_cost ?d =
           py_round (sum_list (map (\<lambda>(material_id, qty_per_sqm).
                 case unrounded_total_cost (MaterialDatabase ''t'') material_id
                        (a * qty_per_sqm) region of
                   None \<Rightarrow> 0
                 | Some total_cost \<Rightarrow> py_round total_cost 2)
              (e_materials ?task_def))) 2"
    by (elim exE conjE) (rule that, assumption+)
  have a': "a = 36 / 10"
    using a by simp
  have r': "region = ''marseille''"
    using r by simp
  have m: "e_materials ?task_def = [(''bathroom_paint_basic'', 2 / 10), (''primer'', 15 / 100)]"
    by simp
  note c' = c [unfolded a' r' m]
  have second: "map_sum id (map_option dt_materials_cost)
       (expand_task (MaterialDatabase ''t'') (JNum (36 / 10)) (JStr ''marseille'')
          [(''type'', JStr ''painting'')] ''painting'' ?task_def) =
     Inr (Some (py_round (sum_list (map (\<lambda>(material_id, qty_per_sqm).
                 case unrounded_total_cost (MaterialDatabase ''t'') material_id
                        (36 / 10 * qty_per_sqm) ''marseille'' of
                   None \<Rightarrow> 0
                 | Some total_cost \<Rightarrow> py_round total_cost 2)
              [(''bathroom_paint_basic'', 2 / 10), (''primer'', 15 / 100)])) 2))"
    by (simp only: e map_sum.simps option.map c')
  from first second show ?thesis
    by (rule conjI)
qed

text \<open>
  C5 as the specification states it fails, in both its parts. The unit cost is an output
  that is not rounded: pipes in Paris cost 8.5 times 1.35, that is 11.475, a unit. And
  the accumulation uses rounded values: for 3.6 square metres of painting in Marseille
  the two materials cost 12.096 and 7.2576 before rounding; the code adds 12.10 and 7.26
  and reports 19.36, where the unrounded values add up to 19.3536, that is 19.35.
\<close>

theorem unrounded_accumulation_counterexample:
  "map_sum id (map dt_materials_cost)
     (generate_detailed_tasks (MaterialDatabase ''t'')
        [(''area_sqm'', JNum (36 / 10)), (''city'', JStr ''marseille''),
         (''tasks'', JArr [JObj [(''type'', JStr ''painting'')]])]) = Inr [1936 / 100]
   \<and> spec_task_materials_cost (MaterialDatabase ''t'') (36 / 10) ''marseille''
       [(''bathroom_paint_basic'', 2 / 10), (''primer'', 15 / 100)] = 1935 / 100
   \<and> map_sum id (map dt_materials_cost)
     (generate_detailed_tasks (MaterialDatabase ''t'')
        [(''area_sqm'', JNum (36 / 10)), (''city'', JStr ''marseille''),
         (''tasks'', JArr [JObj [(''type'', JStr ''painting'')]])]) \<noteq>
     Inr [spec_task_materials_cost (MaterialDatabase ''t'') (36 / 10) ''marseille''
       [(''bathroom_paint_basic'', 2 / 10), (''primer'', 15 / 100)]]
   \<and> map_sum id ci_unit_cost
       (get_cost_with_margin (MaterialDatabase ''t'') ''pipes_pvc'' 1 ''paris'') =
     Inr (11475 / 1000)
   \<and> py_round (11475 / 1000) 2 \<noteq> 11475 / 1000"
  by code_simp

section \<open>The quote assembler\<close>

lemma try_generate_quote_parse_failed:
  assumes "rt_parse_transcript rt transcript = Inl e"
  shows "try_generate_quote rt db transcript = Inl e"
  using assms by (simp add: try_generate_quote_def)

lemma try_generate_quote_tasks_failed:
  assumes "rt_parse_transcript rt transcript = Inr pd" and "generate_detailed_tasks db pd = Inl e"
  shows "try_generate_quote rt db transcript = Inl e"
  using assms by (simp add: try_generate_quote_def)

lemma generate_quote_success:
  assumes "rt_parse_transcript rt transcript = Inr pd" and "generate_detailed_tasks db pd = Inr ts"
  shows "generate_quote rt db transcript = Inr (calculate_final_quote rt pd ts)"
  using assms by (simp add: generate_quote_def try_generate_quote_def)

text \<open>
  What the handler does with an exception of the steps inside \<^verbatim>\<open>try\<close>: the fallback quote
  when the standard output can encode the failure message, and otherwise the exception
  of \<^verbatim>\<open>print\<close>, raised outward.
\<close>

lemma generate_quote_handler:
  assumes "try_generate_quote rt db transcript = Inl e"
  shows "generate_quote rt db transcript =
     (if rt_stdout_can_encode rt (failure_message (rt_exn_str rt e))
      then Inr (generate_fallback_quote rt transcript (rt_exn_str rt e))
      else Inl UnicodeEncodeError)"
  using assms by (simp add: generate_quote_def py_print_def)

lemma fallback_quote_fields:
  "q_zone (generate_fallback_quote rt transcript msg) = ''bathroom''"
  "q_city (generate_fallback_quote rt transcript msg) = JStr ''marseille''"
  "q_total_area_sqm (generate_fallback_quote rt transcript msg) = JNum 4"
  "map (\<lambda>t. case t of Placeholder p \<Rightarrow> Some (ft_error p) | Detailed d \<Rightarrow> None)
     (q_tasks (generate_fallback_quote rt transcript msg)) = [Some msg]"
  "q_margin_percentage (generate_fallback_quote rt transcript msg) = 20 / 100"
  "q_confidence_score (generate_fallback_quote rt transcript msg) = JNum (1 / 10)"
  "q_parsing_method (generate_fallback_quote rt transcript msg) = JStr ''fallback''"
  "q_total_price (generate_fallback_quote rt transcript msg) = 2200"
  by (simp_all add: generate_fallback_quote_def)

text \<open>
  With a standard output that encodes every text, every exception of the parser or of
  the task expansion is answered with the fallback quote, and nothing is raised outward.
\<close>

lemma generate_quote_returns_when_stdout_encodes:
  assumes "\<And>text. rt_stdout_can_encode rt text"
  shows "\<exists>quote. generate_quote rt db transcript = Inr quote"
proof (cases "try_generate_quote rt db transcript")
  case (Inl e)
  then show ?thesis
    using assms by (simp add: generate_quote_handler)
next
  case (Inr quote)
  then show ?thesis
    by (simp add: generate_quote_def)
qed

lemma failed_parse_on_ascii_stdout:
  "try_generate_quote (sample_runtime (Inl (ParserFailure ''timeout''))) db transcript =
     Inl (ParserFailure ''timeout'')"
  by (simp add: try_generate_quote_def sample_runtime_def)

lemma failure_message_not_ascii:
  "\<not> rt_stdout_can_encode (sample_runtime parsed) (failure_message error)"
  by (simp add: sample_runtime_def failure_message_def)

text \<open>
  C1 does not hold of the code. \<^verbatim>\<open>generate_quote\<close> is written to answer every exception
  with the fallback quote, but its handler prints the character U+274C before it returns
  that quote. Where the parser raises (here a timeout of the external service) and the
  standard output is an ASCII one, the \<^verbatim>\<open>print\<close> raises \<^verbatim>\<open>UnicodeEncodeError\<close> inside the
  handler, and \<^verbatim>\<open>generate_quote\<close> raises it outward instead of returning the fallback
  quote.
\<close>

theorem generate_quote_raises_on_ascii_stdout:
  "generate_quote (sample_runtime (Inl (ParserFailure ''timeout'')))
     (MaterialDatabase ''t'') ''a small bathroom'' = Inl UnicodeEncodeError"
  using generate_quote_handler [OF failed_parse_on_ascii_stdout] failure_message_not_ascii
  by simp

text \<open>
  The task expansion raises on a work order of the wrong shape, here an area that is a
  string, and on an integer area too large for a float.
\<close>

lemma bad_area_raises:
  "generate_detailed_tasks (MaterialDatabase ''t'')
     [(''area_sqm'', JStr ''four''),
      (''tasks'', JArr [JObj [(''type'', JStr ''demolition'')]])] = Inl TypeError"
  by code_simp

lemma huge_area_raises:
  "generate_detailed_tasks (MaterialDatabase ''t'')
     [(''area_sqm'', JInt (10 ^ 400)),
      (''tasks'', JArr [JObj [(''type'', JStr ''demolition'')]])] = Inl OverflowError"
  by code_simp

text \<open>
  An empty task list raises nothing: the quote is an ordinary one, with all amounts zero
  and the parsing method of the work order.
\<close>

lemma empty_task_list_quote:
  "generate_detailed_tasks db [(''tasks'', JArr []), (''parsing_method'', JStr ''openai'')] = Inr []"
  "q_total_price (calculate_final_quote rt
     [(''tasks'', JArr []), (''parsing_method'', JStr ''openai'')] []) = 0"
  "q_parsing_method (calculate_final_quote rt
     [(''tasks'', JArr []), (''parsing_method'', JStr ''openai'')] []) = JStr ''openai''"
proof -
  show "generate_detailed_tasks db [(''tasks'', JArr []), (''parsing_method'', JStr ''openai'')] = Inr []"
    by (simp add: generate_detailed_tasks_def dict_get_def)
  have z: "py_round 0 2 = 0"
    using py_round_of_int [of 0 2] by simp
  show "q_total_price (calculate_final_quote rt
     [(''tasks'', JArr []), (''parsing_method'', JStr ''openai'')] []) = 0"
    by (simp add: final_quote_vat vat_calculation_of_eq vat_fields subtotal_materials_of_def
        subtotal_labor_of_def z)
  show "q_parsing_method (calculate_final_quote rt
     [(''tasks'', JArr []), (''parsing_method'', JStr ''openai'')] []) = JStr ''openai''"
    by (simp add: calculate_final_quote_def dict_get_def Let_def)
qed

lemma is_energy_of_iff:
  "is_energy_of rt tasks =
     (\<exists>task \<in> set tasks. str_contains ''energy'' (py_lower (rt_task_str rt task)))"
  by (simp add: is_energy_of_def list_ex_iff)

text \<open>
  C10. On every successful computation (the parser and the task expansion return), the
  quote is the one assembled from the detailed tasks; the building age handed to the VAT
  calculation is 5; the energy flag holds exactly when \<open>energy\<close> occurs in the lower-cased
  string representation of at least one detailed task; so the VAT rate is 5.5% or 10%,
  never 20%, and the quote's VAT amount and total price are those of this calculation.
\<close>

theorem successful_quote_vat_tier:
  assumes "rt_parse_transcript rt transcript = Inr pd"
      and "generate_detailed_tasks db pd = Inr ts"
  shows "generate_quote rt db transcript = Inr (calculate_final_quote rt pd ts)
       \<and> vr_building_age_years (vat_calculation_of rt pd ts) = 5
       \<and> vr_is_energy_renovation (vat_calculation_of rt pd ts) =
           (\<exists>task \<in> set ts. str_contains ''energy'' (py_lower (rt_task_str rt task)))
       \<and> vr_vat_rate (vat_calculation_of rt pd ts) =
           (if \<exists>task \<in> set ts. str_contains ''energy'' (py_lower (rt_task_str rt task))
            then 55 / 1000 else 10 / 100)
       \<and> vr_vat_rate (vat_calculation_of rt pd ts) \<noteq> 20 / 100
       \<and> map_sum id q_vat_amount (generate_quote rt db transcript) =
           Inr (vr_vat_amount (vat_calculation_of rt pd ts))
       \<and> map_sum id q_total_price (generate_quote rt db transcript) =
           Inr (vr_total_including_vat (vat_calculation_of rt pd ts))"
proof -
  have g: "generate_quote rt db transcript = Inr (calculate_final_quote rt pd ts)"
    using assms by (rule generate_quote_success)
  have r: "vr_vat_rate (vat_calculation_of rt pd ts) =
           (if \<exists>task \<in> set ts. str_contains ''energy'' (py_lower (rt_task_str rt task))
            then 55 / 1000 else 10 / 100)"
    by (simp add: vat_calculation_of_eq vat_fields is_energy_of_iff)
  then have n: "vr_vat_rate (vat_calculation_of rt pd ts) \<noteq> 20 / 100"
    by (simp split: if_splits)
  show ?thesis
    using r n by (simp add: g final_quote_vat) (simp add: vat_calculation_of_eq vat_fields is_energy_of_iff)
qed

section \<open>The demolition scenario\<close>

lemma demolition_tasks:
  "generate_detailed_tasks (MaterialDatabase now) demolition_order =
     Inr [demolition_detailed]"
  by code_simp

lemma demolition_labor:
  "calculate_task_labor ''demolition'' 4 ''marseille'' [] None False =
     Inr \<lparr> lr_task_type = ''demolition'', lr_skill_required = ''basic'',
           lr_base_hours = 6, lr_billable_hours = 6, lr_final_hours = 6,
           lr_base_hourly_rate = 30, lr_regional_multiplier = 1,
           lr_complexity_multiplier = 1, lr_seasonal_multiplier = 1,
           lr_rush_multiplier = 1, lr_final_hourly_rate = 30,
           lr_base_labor_cost = 180, lr_applied_complexity_factors = [],
           lr_area_or_units = 4 \<rparr>"
  by code_simp

lemma demolition_material:
  "get_cost_with_margin (MaterialDatabase now) ''demolition_materials'' (4 * 1) ''marseille'' =
     Inr \<lparr> ci_material_id = ''demolition_materials'', ci_name = ''Demolition Supplies'',
           ci_quantity = 4, ci_unit = unit_sqm, ci_unit_cost = 5,
           ci_base_cost = 20, ci_margin = 2, ci_total_cost = 22,
           ci_availability_score = 95 / 100, ci_quality_grade = ''basic'' \<rparr>"
  by code_simp

lemma demolition_numbers:
  "max ((4::rat) * (15 / 10)) 3 = 6"
  "margin_percentage_of demolition_order = 25 / 100"
  "py_round ((22 * (1 + 25 / 100) + 180 * (1 + 25 / 100)) * (10 / 100)) 2 = 2525 / 100"
  "py_round ((22 * (1 + 25 / 100) + 180 * (1 + 25 / 100)) +
      (22 * (1 + 25 / 100) + 180 * (1 + 25 / 100)) * (10 / 100)) 2 = 27775 / 100"
  by code_simp+

text \<open>
  C3. For the work order with area 4, city \<open>marseille\<close>, the single task demolition with
  no complexity factors and budget-conscious false: the labor calculation gives billable
  hours \<open>max (4 * 1.5) 3 = 6\<close>, hourly rate 30 (skill basic, regional multiplier 1) and
  labor cost 180; the single material line has quantity \<open>4 * 1 = 4\<close> at unit cost 5 and
  total 22 with the 10% supplier margin; and, the task not being an energy renovation,
  VAT is computed at 10% for building age 5 on the components \<open>22 * 1.25\<close> and
  \<open>180 * 1.25\<close>, giving VAT 25.25 and total 277.75.
\<close>

theorem demolition_scenario:
  assumes "rt_parse_transcript rt transcript = Inr demolition_order"
      and "generate_detailed_tasks (MaterialDatabase now) demolition_order = Inr tasks"
      and "\<not> is_energy_of rt tasks"
  shows "(\<exists>r. calculate_task_labor ''demolition'' 4 ''marseille'' [] None False = Inr r
            \<and> lr_billable_hours r = max (4 * (15 / 10)) 3
            \<and> lr_billable_hours r = 6
            \<and> lr_skill_required r = ''basic''
            \<and> lr_base_hourly_rate r = 30
            \<and> lr_regional_multiplier r = 1
            \<and> lr_final_hourly_rate r = 30
            \<and> lr_base_labor_cost r = 180)
       \<and> (\<exists>c. get_cost_with_margin (MaterialDatabase now) ''demolition_materials'' (4 * 1) ''marseille'' = Inr c
            \<and> ci_quantity c = 4
            \<and> ci_unit_cost c = 5
            \<and> ci_base_cost c = 20
            \<and> ci_margin c = 20 * (10 / 100)
            \<and> ci_total_cost c = 22)
       \<and> (\<exists>task line. tasks = [task]
            \<and> dt_task_type task = ''demolition''
            \<and> dt_labor_hours task = 6
            \<and> dt_labor_cost task = 180
            \<and> dt_materials task = [line]
            \<and> ml_name line = ''Demolition Supplies''
            \<and> ml_quantity line = 4
            \<and> ml_unit_cost line = 5
            \<and> ml_total_cost line = 22
            \<and> dt_materials_cost task = 22)
       \<and> map_sum id q_margin_percentage (generate_quote rt (MaterialDatabase now) transcript) =
           Inr (25 / 100)
       \<and> vr_building_age_years (vat_calculation_of rt demolition_order tasks) = 5
       \<and> vr_is_energy_renovation (vat_calculation_of rt demolition_order tasks) = False
       \<and> vr_vat_rate (vat_calculation_of rt demolition_order tasks) = 10 / 100
       \<and> vr_materials_cost (vat_calculation_of rt demolition_order tasks) = 22 * (1 + 25 / 100)
       \<and> vr_labor_cost (vat_calculation_of rt demolition_order tasks) = 180 * (1 + 25 / 100)
       \<and> map_sum id q_vat_amount (generate_quote rt (MaterialDatabase now) transcript) =
           Inr (2525 / 100)
       \<and> map_sum id q_total_price (generate_quote rt (MaterialDatabase now) transcript) =
           Inr (27775 / 100)"
proof -
  have labor: "\<exists>r. calculate_task_labor ''demolition'' 4 ''marseille'' [] None False = Inr r
            \<and> lr_billable_hours r = max (4 * (15 / 10)) 3
            \<and> lr_billable_hours r = 6
            \<and> lr_skill_required r = ''basic''
            \<and> lr_base_hourly_rate r = 30
            \<and> lr_regional_multiplier r = 1
            \<and> lr_final_hourly_rate r = 30
            \<and> lr_base_labor_cost r = 180"
    by (simp add: demolition_labor demolition_numbers(1))
  have material: "\<exists>c. get_cost_with_margin (MaterialDatabase now) ''demolition_materials'' (4 * 1) ''marseille'' = Inr c
            \<and> ci_quantity c = 4
            \<and> ci_unit_cost c = 5
            \<and> ci_base_cost c = 20
            \<and> ci_margin c = 20 * (10 / 100)
            \<and> ci_total_cost c = 22"
    by (simp only: demolition_material) simp
  have tasks: "tasks =
     [demolition_detailed]"
    using assms(2) by (simp add: demolition_tasks)
  have sub: "subtotal_materials_of tasks = 22" "subtotal_labor_of tasks = 180"
    by (simp_all add: tasks subtotal_materials_of_def subtotal_labor_of_def demolition_detailed_def)
  have vat: "vat_calculation_of rt demolition_order tasks =
     calculate_simple_renovation_vat (22 * (1 + 25 / 100)) (180 * (1 + 25 / 100)) 5 False"
    using assms(3) by (simp add: vat_calculation_of_eq sub demolition_numbers(2))
  have quote: "generate_quote rt (MaterialDatabase now) transcript =
     Inr (calculate_final_quote rt demolition_order tasks)"
    using assms(1,2) by (rule generate_quote_success)
  have margin: "q_margin_percentage (calculate_final_quote rt demolition_order tasks) = 25 / 100"
    by (simp add: calculate_final_quote_def Let_def demolition_numbers(2))
  have task_fields: "\<exists>task line. tasks = [task]
            \<and> dt_task_type task = ''demolition''
            \<and> dt_labor_hours task = 6
            \<and> dt_labor_cost task = 180
            \<and> dt_materials task = [line]
            \<and> ml_name line = ''Demolition Supplies''
            \<and> ml_quantity line = 4
            \<and> ml_unit_cost line = 5
            \<and> ml_total_cost line = 22
            \<and> dt_materials_cost task = 22"
    by (simp add: tasks demolition_detailed_def)
  have amounts: "vr_vat_amount (vat_calculation_of rt demolition_order tasks) = 2525 / 100"
    "vr_total_including_vat (vat_calculation_of rt demolition_order tasks) = 27775 / 100"
    "vr_vat_rate (vat_calculation_of rt demolition_order tasks) = 10 / 100"
    using demolition_numbers(3,4) by (simp_all only: vat vat_fields) simp_all
  have returned: "map_sum id q_margin_percentage (generate_quote rt (MaterialDatabase now) transcript) =
           Inr (25 / 100)"
    "map_sum id q_vat_amount (generate_quote rt (MaterialDatabase now) transcript) =
           Inr (2525 / 100)"
    "map_sum id q_total_price (generate_quote rt (MaterialDatabase now) transcript) =
           Inr (27775 / 100)"
    by (simp_all only: quote map_sum.simps final_quote_vat margin amounts)
  have calculation: "vr_building_age_years (vat_calculation_of rt demolition_order tasks) = 5"
    "vr_is_energy_renovation (vat_calculation_of rt demolition_order tasks) = False"
    "vr_materials_cost (vat_calculation_of rt demolition_order tasks) = 22 * (1 + 25 / 100)"
    "vr_labor_cost (vat_calculation_of rt demolition_order tasks) = 180 * (1 + 25 / 100)"
    by (simp_all only: vat vat_fields)
  from labor material task_fields returned calculation amounts(3) show ?thesis
    by (intro conjI) assumption+
qed

lemma demolition_not_energy:
  "\<not> is_energy_of (sample_runtime (Inr demolition_order))
       [demolition_detailed]"
  by code_simp

lemma sample_runtime_parse: "rt_parse_transcript (sample_runtime parsed) transcript = parsed"
  by (simp add: sample_runtime_def)

theorem demolition_scenario_witness:
  "map_sum id q_vat_amount
     (generate_quote (sample_runtime (Inr demolition_order)) (MaterialDatabase ''t'')
        ''remove the old tiles'') = Inr (2525 / 100)
   \<and> map_sum id q_total_price
     (generate_quote (sample_runtime (Inr demolition_order)) (MaterialDatabase ''t'')
        ''remove the old tiles'') = Inr (27775 / 100)"
  using demolition_scenario [where transcript = "''remove the old tiles''" and now = "''t''",
      OF sample_runtime_parse demolition_tasks demolition_not_energy]
  by (elim conjE, intro conjI) assumption+

theorem successful_quote_vat_tier_witness:
  "map_sum id q_total_price
     (generate_quote (sample_runtime (Inr demolition_order)) (MaterialDatabase ''t'')
        ''remove the old tiles'') =
     Inr (vr_total_including_vat
       (vat_calculation_of (sample_runtime (Inr demolition_order)) demolition_order
          [demolition_detailed]))
   \<and> vr_building_age_years (vat_calculation_of (sample_runtime (Inr demolition_order)) demolition_order
       [demolition_detailed]) = 5"
  using successful_quote_vat_tier [where transcript = "''remove the old tiles''",
      OF sample_runtime_parse demolition_tasks [of "''t''"]]
  by (elim conjE, intro conjI) assumption+

end
